theory Spec2Isabelle
  imports Complex_Main "HOL-Library.AList" "HOL-Library.Char_ord" "HOL-Library.List_Lexorder"
    "HOL-Library.Multiset"
begin

section \<open>Python primitives used by the bot\<close>

text \<open>
  Strings are lists of 8-bit characters, read as code points below 256. The emoji of the
  source lie outside that range; each is written as the bytes of its UTF-8 encoding.
  Python integers are unbounded (\<open>int\<close>); the interpreter's optional limit on the number
  of digits converted between \<open>str\<close> and \<open>int\<close> is taken as switched off.
\<close>

datatype error = OverflowError | KeyError string

subsection \<open>Characters and strings\<close>

definition py_isspace :: "char \<Rightarrow> bool" where
  \<comment> \<open>\<open>str.isspace\<close> on one code point below 256\<close>
  "py_isspace c =
     (let n = (of_char c :: nat)
      in (9 \<le> n \<and> n \<le> 13) \<or> (28 \<le> n \<and> n \<le> 32) \<or> n = 133 \<or> n = 160)"

definition py_strip :: "string \<Rightarrow> string" where
  \<comment> \<open>\<open>s.strip()\<close>\<close>
  "py_strip s = rev (dropWhile py_isspace (rev (dropWhile py_isspace s)))"

definition py_rstrip_chars :: "string \<Rightarrow> string \<Rightarrow> string" where
  \<comment> \<open>\<open>s.rstrip(chars)\<close>: drops trailing characters that occur in \<open>chars\<close>\<close>
  "py_rstrip_chars chars s = rev (dropWhile (\<lambda>c. c \<in> set chars) (rev s))"

fun py_split :: "char \<Rightarrow> string \<Rightarrow> string list" where
  \<comment> \<open>\<open>s.split(sep)\<close> for a one-character separator\<close>
  "py_split sep [] = [[]]"
| "py_split sep (c # cs) =
     (if c = sep then [] # py_split sep cs
      else (case py_split sep cs of [] \<Rightarrow> [[c]] | w # ws \<Rightarrow> (c # w) # ws))"

fun add_32 :: "char \<Rightarrow> char" where
  \<comment> \<open>the code point plus 32, for a code point whose bit 5 is clear\<close>
  "add_32 (Char b0 b1 b2 b3 b4 b5 b6 b7) = Char b0 b1 b2 b3 b4 True b6 b7"

definition py_lower_char :: "char \<Rightarrow> char" where
  \<comment> \<open>\<open>str.lower\<close> on one code point below 256: A-Z and the accented capitals
      U+00C0..U+00DE except the multiplication sign U+00D7\<close>
  "py_lower_char c =
     (let n = (of_char c :: nat)
      in if (65 \<le> n \<and> n \<le> 90) \<or> (192 \<le> n \<and> n \<le> 222 \<and> n \<noteq> 215) then add_32 c else c)"

definition py_lower :: "string \<Rightarrow> string" where
  "py_lower s = map py_lower_char s"

definition sql_lower_char :: "char \<Rightarrow> char" where
  \<comment> \<open>SQLite's built-in \<open>LOWER\<close> folds the ASCII letters only\<close>
  "sql_lower_char c =
     (let n = (of_char c :: nat) in if 65 \<le> n \<and> n \<le> 90 then add_32 c else c)"

definition sql_lower :: "string \<Rightarrow> string" where
  "sql_lower s = map sql_lower_char s"

definition py_replace_space :: "string \<Rightarrow> string" where
  \<comment> \<open>\<open>s.replace(" ", "%20")\<close>\<close>
  "py_replace_space s = concat (map (\<lambda>c. if c = CHR '' '' then ''%20'' else [c]) s)"

definition str_truthy :: "string option \<Rightarrow> bool" where
  \<comment> \<open>truth value of an \<open>Optional[str]\<close>: \<open>None\<close> and the empty string are false\<close>
  "str_truthy s = (case s of None \<Rightarrow> False | Some t \<Rightarrow> t \<noteq> [])"

subsection \<open>Integers and their decimal notation\<close>

definition digit_char :: "nat \<Rightarrow> char" where
  "digit_char d = ''0123456789'' ! d"

fun digits_of :: "nat \<Rightarrow> string" where
  "digits_of n = (if n < 10 then [digit_char n] else digits_of (n div 10) @ [digit_char (n mod 10)])"

declare digits_of.simps [simp del]

definition str_int :: "int \<Rightarrow> string" where
  \<comment> \<open>\<open>str(i)\<close>\<close>
  "str_int i = (if i < 0 then CHR ''-'' # digits_of (nat (- i)) else digits_of (nat i))"

definition digit_val :: "char \<Rightarrow> nat option" where
  "digit_val c =
     (let n = (of_char c :: nat) in if 48 \<le> n \<and> n \<le> 57 then Some (n - 48) else None)"

fun parse_digits :: "nat \<Rightarrow> bool \<Rightarrow> string \<Rightarrow> nat option" where
  \<comment> \<open>digits with single underscores between them; the flag says that the previous
      character was a digit\<close>
  "parse_digits acc prev [] = (if prev then Some acc else None)"
| "parse_digits acc prev (c # cs) =
     (if c = CHR ''_'' then (if prev then parse_digits acc False cs else None)
      else (case digit_val c of None \<Rightarrow> None
            | Some d \<Rightarrow> parse_digits (10 * acc + d) True cs))"

definition int_isspace :: "char \<Rightarrow> bool" where
  \<comment> \<open>the white space that \<open>int\<close> skips around a number: that of \<open>str.isspace\<close> without
      the separators U+001C..U+001F\<close>
  "int_isspace c =
     (let n = (of_char c :: nat) in (9 \<le> n \<and> n \<le> 13) \<or> n = 32 \<or> n = 133 \<or> n = 160)"

definition py_int :: "string \<Rightarrow> int option" where
  \<comment> \<open>\<open>int(s)\<close>; \<open>None\<close> stands for \<open>ValueError\<close>\<close>
  "py_int s =
     (case rev (dropWhile int_isspace (rev (dropWhile int_isspace s))) of
        [] \<Rightarrow> None
      | c # cs \<Rightarrow>
          if c = CHR ''-'' then map_option (\<lambda>n. - int n) (parse_digits 0 False cs)
          else if c = CHR ''+'' then map_option int (parse_digits 0 False cs)
          else map_option int (parse_digits 0 False (c # cs)))"

subsection \<open>True division and fixed-point formatting of floats\<close>

text \<open>
  A double is a mantissa and a binary exponent, standing for \<open>mantissa * 2 ^ exponent\<close>.
  \<open>int_true_divide a b\<close> is Python's \<open>a / b\<close> on integers with \<open>0 < b \<le> a\<close>, the only
  way \<open>format_number\<close> divides: the exact quotient rounded to 53 significant bits, ties
  to even, and \<open>OverflowError\<close> when the rounded quotient reaches \<open>2 ^ 1024\<close>.
\<close>

fun floor_log2 :: "nat \<Rightarrow> nat" where
  "floor_log2 n = (if n < 2 then 0 else 1 + floor_log2 (n div 2))"

declare floor_log2.simps [simp del]

definition round_half_even :: "int \<Rightarrow> int \<Rightarrow> int" where
  \<comment> \<open>\<open>a / b\<close> rounded to the nearest integer, ties to the even one, for \<open>0 < b\<close>\<close>
  "round_half_even a b =
     (let q = a div b; r = a mod b
      in if 2 * r < b then q else if b < 2 * r then q + 1 else if even q then q else q + 1)"

datatype double = Double (mantissa: int) (exponent: int)

definition quotient_exponent :: "int \<Rightarrow> int \<Rightarrow> nat" where
  "quotient_exponent a b = floor_log2 (nat (a div b))"

definition quotient_mantissa :: "int \<Rightarrow> int \<Rightarrow> int" where
  "quotient_mantissa a b =
     (let e = quotient_exponent a b
      in if 52 \<le> e then round_half_even a (b * 2 ^ (e - 52))
         else round_half_even (a * 2 ^ (52 - e)) b)"

definition int_true_divide :: "int \<Rightarrow> int \<Rightarrow> error + double" where
  "int_true_divide a b =
     (let e = quotient_exponent a b; m = quotient_mantissa a b
      in if 52 \<le> e \<and> 2 ^ 1024 \<le> m * 2 ^ (e - 52) then Inl OverflowError
         else Inr (Double m (int e - 52)))"

definition double_value :: "double \<Rightarrow> real" where
  \<comment> \<open>the real number a double stands for\<close>
  "double_value x =
     (if 0 \<le> exponent x then of_int (mantissa x) * 2 ^ nat (exponent x)
      else of_int (mantissa x) / 2 ^ nat (- exponent x))"

fun frac_digits :: "nat \<Rightarrow> nat \<Rightarrow> string" where
  \<comment> \<open>the last \<open>w\<close> decimal digits of \<open>n\<close>, zero padded\<close>
  "frac_digits w n =
     (if w = 0 then [] else frac_digits (w - 1) (n div 10) @ [digit_char (n mod 10)])"

declare frac_digits.simps [simp del]

definition fixed_point :: "nat \<Rightarrow> nat \<Rightarrow> string" where
  \<comment> \<open>the decimal notation of \<open>k / 10 ^ dp\<close> with \<open>dp\<close> places\<close>
  "fixed_point dp k = digits_of (k div 10 ^ dp) @ ''.'' @ frac_digits dp (k mod 10 ^ dp)"

definition scaled_round :: "nat \<Rightarrow> double \<Rightarrow> int" where
  \<comment> \<open>\<open>x * 10 ^ dp\<close> rounded to the nearest integer, ties to even, on the exact value
      of the double\<close>
  "scaled_round dp x =
     (if 0 \<le> exponent x then mantissa x * 2 ^ nat (exponent x) * 10 ^ dp
      else round_half_even (mantissa x * 10 ^ dp) (2 ^ nat (- exponent x)))"

definition format_fixed :: "nat \<Rightarrow> double \<Rightarrow> string" where
  \<comment> \<open>\<open>f"{x:.<dp>f}"\<close> for a double \<open>x \<ge> 0\<close> and \<open>dp \<ge> 1\<close>\<close>
  "format_fixed dp x = fixed_point dp (nat (scaled_round dp x))"

subsection \<open>\<open>format_number\<close>\<close>

definition format_number :: "int \<Rightarrow> error + string" where
  "format_number num =
     (if 1000000000 \<le> num then
        (case int_true_divide num 1000000000 of
           Inl e \<Rightarrow> Inl e
         | Inr x \<Rightarrow> Inr (format_fixed 2 x @ ''B''))
      else if 1000000 \<le> num then
        (case int_true_divide num 1000000 of
           Inl e \<Rightarrow> Inl e
         | Inr x \<Rightarrow> Inr (format_fixed 2 x @ ''M''))
      else if 1000 \<le> num then
        (case int_true_divide num 1000 of
           Inl e \<Rightarrow> Inl e
         | Inr x \<Rightarrow> Inr (format_fixed 1 x @ ''K''))
      else Inr (str_int num))"


section \<open>Upstream data\<close>

definition SKILLS :: "string list" where
  "SKILLS =
     [''Overall'', ''Attack'', ''Defence'', ''Strength'', ''Constitution'', ''Ranged'',
      ''Prayer'', ''Magic'', ''Cooking'', ''Woodcutting'', ''Fletching'', ''Fishing'',
      ''Firemaking'', ''Crafting'', ''Smithing'', ''Mining'', ''Herblore'', ''Agility'',
      ''Thieving'', ''Slayer'', ''Farming'', ''Runecrafting'', ''Hunter'', ''Construction'',
      ''Summoning'', ''Dungeoneering'', ''Divination'', ''Invention'', ''Archaeology'',
      ''Necromancy'']"

record skill_entry =
  rank :: int
  level :: int
  xp :: int

text \<open>
  The dictionary built by \<open>fetch_hiscores\<close>: skill name to entry, as an association list in
  insertion order. \<open>AList.update\<close> is Python's item assignment: it replaces the value of a
  key that is present and appends a new key at the end.
\<close>

type_synonym hiscores = "(string \<times> skill_entry) list"

record activity =
  act_text :: "string option"

text \<open>
  The JSON object of a RuneMetrics profile. Every key the bot reads is a field that may be
  absent, typed as the provider documents it; \<open>other_keys\<close> lists the keys of the object
  that the bot never reads by name (among them \<open>error\<close>).
\<close>

record profile =
  name :: "string option"
  totalxp :: "int option"
  totalskill :: "int option"
  combatlevel :: "int option"
  questscomplete :: "int option"
  questsstarted :: "int option"
  questsnotstarted :: "int option"
  activities :: "activity list option"
  other_keys :: "string list"

definition dict_truthy :: "profile \<Rightarrow> bool" where
  \<comment> \<open>the truth value of the dictionary: false exactly when it has no key at all\<close>
  "dict_truthy d =
     (name d \<noteq> None \<or> totalxp d \<noteq> None \<or> totalskill d \<noteq> None \<or> combatlevel d \<noteq> None
      \<or> questscomplete d \<noteq> None \<or> questsstarted d \<noteq> None \<or> questsnotstarted d \<noteq> None
      \<or> activities d \<noteq> None \<or> other_keys d \<noteq> [])"

definition profile_truthy :: "profile option \<Rightarrow> bool" where
  \<comment> \<open>\<open>not data\<close> is true for \<open>None\<close> and for the empty dictionary\<close>
  "profile_truthy r = (case r of None \<Rightarrow> False | Some d \<Rightarrow> dict_truthy d)"

definition hiscores_truthy :: "hiscores option \<Rightarrow> bool" where
  "hiscores_truthy r = (case r of None \<Rightarrow> False | Some h \<Rightarrow> h \<noteq> [])"

definition get_int :: "int option \<Rightarrow> int" where
  \<comment> \<open>\<open>d.get(key, 0)\<close> on an integer field\<close>
  "get_int v = (case v of None \<Rightarrow> 0 | Some n \<Rightarrow> n)"

definition get_name :: "profile \<Rightarrow> string \<Rightarrow> string" where
  \<comment> \<open>\<open>d.get("name", rsn)\<close>\<close>
  "get_name d rsn = (case name d of None \<Rightarrow> rsn | Some n \<Rightarrow> n)"

text \<open>
  The network, as the two fetch functions see it: a URL is answered by a status code and a
  body, or by nothing (connection failure, timeout, or a body that does not decode).
\<close>

record world =
  http_json :: "string \<Rightarrow> (nat \<times> profile) option"
  http_text :: "string \<Rightarrow> (nat \<times> string) option"

definition RUNEMETRICS_URL :: "string \<Rightarrow> string" where
  "RUNEMETRICS_URL user =
     ''https://apps.runescape.com/runemetrics/profile/profile?user='' @ user @ ''&activities=20''"

definition HISCORES_URL :: "string \<Rightarrow> string" where
  "HISCORES_URL player = ''https://secure.runescape.com/m=hiscore/index_lite.ws?player='' @ player"

definition fetch_runemetrics :: "world \<Rightarrow> string \<Rightarrow> profile option" where
  "fetch_runemetrics w rsn =
     (case http_json w (RUNEMETRICS_URL (py_replace_space rsn)) of
        None \<Rightarrow> None
      | Some (status, data) \<Rightarrow>
          if status = 200 \<and> ''error'' \<notin> set (other_keys data) then Some data else None)"

subsection \<open>The skill-table parser\<close>

definition parse_line :: "string \<Rightarrow> skill_entry option option" where
  \<comment> \<open>one iteration of the loop: \<open>None\<close> is the \<open>ValueError\<close> of \<open>int\<close>, \<open>Some None\<close> a
      line that is skipped, \<open>Some (Some e)\<close> the entry stored\<close>
  "parse_line line =
     (let parts = py_split CHR '','' line
      in if 3 \<le> length parts then
           (case py_int (parts ! 0) of None \<Rightarrow> None
            | Some r \<Rightarrow>
              (case py_int (parts ! 1) of None \<Rightarrow> None
               | Some l \<Rightarrow>
                 (case py_int (parts ! 2) of None \<Rightarrow> None
                  | Some x \<Rightarrow> Some (Some \<lparr>rank = r, level = l, xp = x\<rparr>))))
         else Some None)"

fun parse_lines :: "hiscores \<Rightarrow> (nat \<times> string) list \<Rightarrow> hiscores option" where
  \<comment> \<open>the \<open>for i, line in enumerate(...)\<close> loop over the numbered lines\<close>
  "parse_lines skills [] = Some skills"
| "parse_lines skills ((i, line) # rest) =
     (case parse_line line of
        None \<Rightarrow> None
      | Some None \<Rightarrow> parse_lines skills rest
      | Some (Some e) \<Rightarrow> parse_lines (AList.update (SKILLS ! i) e skills) rest)"

definition response_lines :: "string \<Rightarrow> string list" where
  \<comment> \<open>\<open>text.strip().split("\n")\<close>\<close>
  "response_lines body = py_split CHR 0x0A (py_strip body)"

definition parse_hiscores :: "string \<Rightarrow> hiscores option" where
  \<comment> \<open>the body of \<open>fetch_hiscores\<close> on the response text; \<open>None\<close> is the exception that
      the \<open>except\<close> clause turns into the result \<open>None\<close>\<close>
  "parse_hiscores body =
     (let lines = response_lines body
      in parse_lines [] (enumerate 0 (take (length SKILLS) lines)))"

definition fetch_hiscores :: "world \<Rightarrow> string \<Rightarrow> hiscores option" where
  "fetch_hiscores w rsn =
     (case http_text w (HISCORES_URL (py_replace_space rsn)) of
        None \<Rightarrow> None
      | Some (status, body) \<Rightarrow> if status = 200 then parse_hiscores body else None)"


section \<open>The store\<close>

text \<open>
  The two tables the commands touch, each a list of rows in insertion order, which is the
  order of the \<open>id\<close> column. That column is never read and is left out, as are the tables
  \<open>achievement_log\<close> and \<open>player_cache\<close>, which no command reads or writes.
  \<open>CURRENT_TIMESTAMP\<close> is the argument \<open>now\<close> of the commands that insert.

  No query on \<open>linked_accounts\<close> has an \<open>ORDER BY\<close>, which leaves the order of its rows to
  the engine. SQLite answers each of them from the index that it keeps for
  \<open>UNIQUE(discord_id, rsn)\<close>, and so returns the rows in the order of that index: ascending
  caller identity, then ascending name, names compared byte by byte (for code points below
  256 that is the lexicographic order on the code points, the order of \<open>string\<close> here), then
  ascending \<open>id\<close>.
\<close>

record linked_account =
  discord_id :: int
  rsn :: string
  linked_at :: string

record drop_entry =
  drop_discord_id :: int
  drop_rsn :: string
  item_name :: string
  timestamp :: string

record db =
  linked_accounts :: "linked_account list"
  drop_log :: "drop_entry list"

definition init_db :: db where
  \<comment> \<open>the tables created on first start\<close>
  "init_db = \<lparr>linked_accounts = [], drop_log = []\<rparr>"

definition index_order :: "linked_account list \<Rightarrow> linked_account list" where
  \<comment> \<open>the rows of \<open>linked_accounts\<close> as the index of \<open>UNIQUE(discord_id, rsn)\<close> lists them:
      two stable sorts, by name and then by caller\<close>
  "index_order rows = sort_key discord_id (sort_key rsn rows)"

definition accounts_of :: "db \<Rightarrow> int \<Rightarrow> linked_account list" where
  \<comment> \<open>\<open>SELECT ... FROM linked_accounts WHERE discord_id = ?\<close>, a search of the index\<close>
  "accounts_of st user_id =
     filter (\<lambda>r. discord_id r = user_id) (index_order (linked_accounts st))"

definition insert_link :: "db \<Rightarrow> linked_account \<Rightarrow> db option" where
  \<comment> \<open>\<open>INSERT INTO linked_accounts\<close> under \<open>UNIQUE(discord_id, rsn)\<close>; \<open>None\<close> is the
      \<open>IntegrityError\<close>\<close>
  "insert_link st row =
     (if \<exists>r \<in> set (linked_accounts st). discord_id r = discord_id row \<and> rsn r = rsn row
      then None
      else Some (st\<lparr>linked_accounts := linked_accounts st @ [row]\<rparr>))"

definition delete_link :: "db \<Rightarrow> int \<Rightarrow> string \<Rightarrow> nat \<times> db" where
  \<comment> \<open>\<open>DELETE FROM linked_accounts WHERE discord_id = ? AND LOWER(rsn) = LOWER(?)\<close>, with
      the row count\<close>
  "delete_link st user_id rsn_in =
     (let hit = (\<lambda>r. discord_id r = user_id \<and> sql_lower (rsn r) = sql_lower rsn_in)
      in (length (filter hit (linked_accounts st)),
          st\<lparr>linked_accounts := filter (\<lambda>r. \<not> hit r) (linked_accounts st)\<rparr>))"

definition insert_drop :: "db \<Rightarrow> drop_entry \<Rightarrow> db" where
  \<comment> \<open>\<open>INSERT INTO drop_log\<close>\<close>
  "insert_drop st row = st\<lparr>drop_log := drop_log st @ [row]\<rparr>"

definition order_desc :: "('a \<Rightarrow> 'k::linorder) \<Rightarrow> 'a list \<Rightarrow> 'a list" where
  \<comment> \<open>a stable sort into descending order of the key: \<open>list.sort(key=..., reverse=True)\<close>,
      which reverses, sorts stably and reverses again; also the model of
      \<open>ORDER BY ... DESC\<close>, where SQL leaves the order among equal keys open\<close>
  "order_desc key xs = rev (sort_key key (rev xs))"

definition matching_drops :: "db \<Rightarrow> string option \<Rightarrow> drop_entry list" where
  \<comment> \<open>the rows the two queries of \<open>view_drops\<close> range over: all of \<open>drop_log\<close>, or those
      with \<open>LOWER(rsn) = LOWER(?)\<close> when the argument is truthy\<close>
  "matching_drops st rsn_in =
     (if str_truthy rsn_in
      then filter (\<lambda>d. sql_lower (drop_rsn d) = sql_lower (the rsn_in)) (drop_log st)
      else drop_log st)"

definition select_drops :: "db \<Rightarrow> string option \<Rightarrow> drop_entry list" where
  \<comment> \<open>\<open>... ORDER BY timestamp DESC LIMIT 10\<close>\<close>
  "select_drops st rsn_in = take 10 (order_desc timestamp (matching_drops st rsn_in))"

definition unique_links :: "db \<Rightarrow> bool" where
  \<comment> \<open>the constraint \<open>UNIQUE(discord_id, rsn)\<close> of \<open>linked_accounts\<close>\<close>
  "unique_links st = distinct (map (\<lambda>r. (discord_id r, rsn r)) (linked_accounts st))"

section \<open>Replies\<close>

text \<open>
  An embed with its title, description and fields (name, value, inline); colour, footer and
  the embed's own timestamp are presentation and left out. A reply is a plain message with
  its \<open>ephemeral\<close> flag, or an embed.
\<close>

record embed =
  title :: string
  description :: "string option"
  embed_fields :: "(string \<times> string \<times> bool) list"

datatype reply = Message string bool | EmbedReply embed

definition cross_mark :: string where "cross_mark = [CHR 0xE2, CHR 0x9D, CHR 0x8C]"
definition check_mark :: string where "check_mark = [CHR 0xE2, CHR 0x9C, CHR 0x85]"
definition warning_sign :: string where
  "warning_sign = [CHR 0xE2, CHR 0x9A, CHR 0xA0, CHR 0xEF, CHR 0xB8, CHR 0x8F]"
definition link_symbol :: string where "link_symbol = [CHR 0xF0, CHR 0x9F, CHR 0x94, CHR 0x97]"
definition bar_chart :: string where "bar_chart = [CHR 0xF0, CHR 0x9F, CHR 0x93, CHR 0x8A]"
definition crossed_swords :: string where
  "crossed_swords = [CHR 0xE2, CHR 0x9A, CHR 0x94, CHR 0xEF, CHR 0xB8, CHR 0x8F]"
definition trophy :: string where "trophy = [CHR 0xF0, CHR 0x9F, CHR 0x8F, CHR 0x86]"
definition party_popper :: string where "party_popper = [CHR 0xF0, CHR 0x9F, CHR 0x8E, CHR 0x89]"
definition scroll :: string where "scroll = [CHR 0xF0, CHR 0x9F, CHR 0x93, CHR 0x9C]"

definition medals :: "string list" where
  "medals = [[CHR 0xF0, CHR 0x9F, CHR 0xA5, CHR 0x87], [CHR 0xF0, CHR 0x9F, CHR 0xA5, CHR 0x88],
             [CHR 0xF0, CHR 0x9F, CHR 0xA5, CHR 0x89]]"

fun py_join :: "string \<Rightarrow> string list \<Rightarrow> string" where
  \<comment> \<open>\<open>sep.join(xs)\<close>\<close>
  "py_join sep [] = []"
| "py_join sep [x] = x"
| "py_join sep (x # y # ys) = x @ sep @ py_join sep (y # ys)"

section \<open>Account linking\<close>

definition link_account :: "world \<Rightarrow> string \<Rightarrow> db \<Rightarrow> int \<Rightarrow> string \<Rightarrow> reply \<times> db" where
  "link_account w now st user_id rsn_in =
     (let data = fetch_runemetrics w rsn_in
      in if \<not> profile_truthy data then
           (Message (cross_mark @ '' Could not find player **'' @ rsn_in
                     @ ''**. Make sure the name is correct and the profile is public.'') True, st)
         else
           let actual_name = get_name (the data) rsn_in
           in (case insert_link st \<lparr>discord_id = user_id, rsn = actual_name, linked_at = now\<rparr> of
                 Some st' \<Rightarrow>
                   (Message (check_mark @ '' Successfully linked **'' @ actual_name
                             @ ''** to your Discord account!'') False, st')
               | None \<Rightarrow>
                   (Message (warning_sign @ '' **'' @ actual_name
                             @ ''** is already linked to your account.'') True, st)))"

definition unlink_account :: "db \<Rightarrow> int \<Rightarrow> string \<Rightarrow> reply \<times> db" where
  "unlink_account st user_id rsn_in =
     (let (rowcount, st') = delete_link st user_id rsn_in
      in if 0 < rowcount then
           (Message (check_mark @ '' Unlinked **'' @ rsn_in @ ''** from your account.'') False, st')
         else
           (Message (cross_mark @ '' **'' @ rsn_in @ ''** is not linked to your account.'') True, st'))"

definition view_accounts :: "db \<Rightarrow> int \<Rightarrow> reply" where
  "view_accounts st user_id =
     (let rows = accounts_of st user_id
      in if rows = [] then
           Message ''You don't have any linked accounts. Use `/link <rsn>` to add one!'' True
         else
           EmbedReply \<lparr>title = link_symbol @ '' Your Linked Accounts'', description = None,
             embed_fields = map (\<lambda>r. (rsn r, ''Linked: '' @ take 10 (linked_at r), True)) rows\<rparr>)"


section \<open>Stats lookup\<close>

definition int_truthy :: "int option \<Rightarrow> bool" where
  \<comment> \<open>the truth value of \<open>d.get(key)\<close> on an integer field: absent and 0 are false\<close>
  "int_truthy v = (case v of None \<Rightarrow> False | Some n \<Rightarrow> n \<noteq> 0)"

definition quest_field :: "profile \<Rightarrow> (string \<times> string \<times> bool) list" where
  "quest_field d =
     (if int_truthy (questscomplete d) then
        [(''Quests'',
          str_int (get_int (questscomplete d)) @ ''/''
          @ str_int (get_int (questsstarted d) + get_int (questscomplete d)
                     + get_int (questsnotstarted d)),
          True)]
      else [])"

definition activity_field :: "profile \<Rightarrow> (string \<times> string \<times> bool) list" where
  "activity_field d =
     (case activities d of
        None \<Rightarrow> []
      | Some [] \<Rightarrow> []
      | Some (recent # _) \<Rightarrow>
          [(''Recent Activity'',
            take 100 (case act_text recent of None \<Rightarrow> ''Unknown'' | Some t \<Rightarrow> t), False)])"

definition profile_fields :: "profile \<Rightarrow> error + (string \<times> string \<times> bool) list" where
  \<comment> \<open>the \<open>if runemetrics:\<close> block\<close>
  "profile_fields d =
     (case format_number (get_int (totalxp d)) of
        Inl e \<Rightarrow> Inl e
      | Inr shown \<Rightarrow>
          Inr ([(''Total XP'', shown, True),
                (''Total Level'', str_int (get_int (totalskill d)), True),
                (''Combat Level'', str_int (get_int (combatlevel d)), True)]
               @ quest_field d @ activity_field d))"

definition combat_stats :: "string list" where
  "combat_stats =
     [''Attack'', ''Strength'', ''Defence'', ''Constitution'', ''Ranged'', ''Prayer'', ''Magic'',
      ''Summoning'', ''Necromancy'']"

definition combat_text :: "hiscores \<Rightarrow> string" where
  "combat_text h =
     concat (map (\<lambda>skill. case map_of h skill of
                            None \<Rightarrow> []
                          | Some e \<Rightarrow> ''**'' @ skill @ '':** '' @ str_int (level e) @ '' | '')
                 combat_stats)"

definition hiscores_fields :: "hiscores \<Rightarrow> (string \<times> string \<times> bool) list" where
  \<comment> \<open>the \<open>if hiscores:\<close> block\<close>
  "hiscores_fields h =
     (if combat_text h \<noteq> [] then
        [(''Combat Stats'', py_rstrip_chars '' | '' (combat_text h), False)]
      else [])"

definition stats_report :: "world \<Rightarrow> string \<Rightarrow> error + reply" where
  \<comment> \<open>\<open>stats_lookup\<close> from the two fetches on\<close>
  "stats_report w rsn_in =
     (let runemetrics = fetch_runemetrics w rsn_in;
          hiscores = fetch_hiscores w rsn_in
      in if \<not> profile_truthy runemetrics \<and> \<not> hiscores_truthy hiscores then
           Inr (Message (cross_mark @ '' Could not find player **'' @ rsn_in @ ''**.'') True)
         else
           let heading = bar_chart @ '' Stats for ''
                 @ (if profile_truthy runemetrics then get_name (the runemetrics) rsn_in
                    else rsn_in);
               hs = (if hiscores_truthy hiscores then hiscores_fields (the hiscores) else [])
           in if profile_truthy runemetrics then
                (case profile_fields (the runemetrics) of
                   Inl e \<Rightarrow> Inl e
                 | Inr ps \<Rightarrow>
                     Inr (EmbedReply \<lparr>title = heading, description = None,
                                       embed_fields = ps @ hs\<rparr>))
              else
                Inr (EmbedReply \<lparr>title = heading, description = None, embed_fields = hs\<rparr>))"

definition stats_lookup :: "world \<Rightarrow> db \<Rightarrow> int \<Rightarrow> string option \<Rightarrow> error + reply" where
  "stats_lookup w st user_id rsn_in =
     (if \<not> str_truthy rsn_in then
        (case accounts_of st user_id of
           [] \<Rightarrow> Inr (Message ''Please provide an RSN or link an account with `/link`.'' True)
         | row # _ \<Rightarrow> stats_report w (rsn row))
      else stats_report w (the rsn_in))"

section \<open>Comparison\<close>

definition comparisons :: "(string \<times> string) list" where
  "comparisons =
     [(''Total XP'', ''totalxp''), (''Total Level'', ''totalskill''),
      (''Combat Level'', ''combatlevel''), (''Quests Complete'', ''questscomplete'')]"

definition get_stat :: "profile \<Rightarrow> string \<Rightarrow> int" where
  \<comment> \<open>\<open>data.get(key, 0)\<close> for the four keys of \<open>comparisons\<close>\<close>
  "get_stat d key =
     (if key = ''totalxp'' then get_int (totalxp d)
      else if key = ''totalskill'' then get_int (totalskill d)
      else if key = ''combatlevel'' then get_int (combatlevel d)
      else if key = ''questscomplete'' then get_int (questscomplete d)
      else 0)"

definition versus :: "string \<Rightarrow> int \<Rightarrow> string \<Rightarrow> int \<Rightarrow> string" where
  \<comment> \<open>the value of one comparison field\<close>
  "versus display1 val1 display2 val2 =
     display1 @ '' '' @ (if val1 > val2 then trophy else []) @ '' vs ''
     @ display2 @ '' '' @ (if val2 > val1 then trophy else [])"

definition compare_field ::
    "profile \<Rightarrow> profile \<Rightarrow> string \<times> string \<Rightarrow> error + (string \<times> string \<times> bool)" where
  \<comment> \<open>the body of the loop over \<open>comparisons\<close>\<close>
  "compare_field data1 data2 c =
     (let label = fst c; key = snd c;
          val1 = get_stat data1 key;
          val2 = get_stat data2 key
      in if key = ''totalxp'' then
           (case format_number val1 of
              Inl e \<Rightarrow> Inl e
            | Inr display1 \<Rightarrow>
                (case format_number val2 of
                   Inl e \<Rightarrow> Inl e
                 | Inr display2 \<Rightarrow> Inr (label, versus display1 val1 display2 val2, True)))
         else Inr (label, versus (str_int val1) val1 (str_int val2) val2, True))"

fun collect :: "('a \<Rightarrow> error + 'b) \<Rightarrow> 'a list \<Rightarrow> error + 'b list" where
  \<comment> \<open>a loop that appends one result per element and stops at the first exception\<close>
  "collect f [] = Inr []"
| "collect f (x # xs) =
     (case f x of
        Inl e \<Rightarrow> Inl e
      | Inr y \<Rightarrow> (case collect f xs of Inl e \<Rightarrow> Inl e | Inr ys \<Rightarrow> Inr (y # ys)))"

definition comparison_fields :: "profile \<Rightarrow> profile \<Rightarrow> error + (string \<times> string \<times> bool) list" where
  "comparison_fields data1 data2 = collect (compare_field data1 data2) comparisons"

definition compare_stats :: "world \<Rightarrow> string \<Rightarrow> string \<Rightarrow> error + reply" where
  "compare_stats w rsn1 rsn2 =
     (let data1 = fetch_runemetrics w rsn1;
          data2 = fetch_runemetrics w rsn2
      in if \<not> profile_truthy data1 \<or> \<not> profile_truthy data2 then
           let missing = (if \<not> profile_truthy data1 then [rsn1] else [])
                         @ (if \<not> profile_truthy data2 then [rsn2] else [])
           in Inr (Message (cross_mark @ '' Could not find player(s): '' @ py_join '', '' missing)
                     True)
         else
           (case name (the data1) of
              None \<Rightarrow> Inl (KeyError ''name'')
            | Some name1 \<Rightarrow>
                (case name (the data2) of
                   None \<Rightarrow> Inl (KeyError ''name'')
                 | Some name2 \<Rightarrow>
                     (case comparison_fields (the data1) (the data2) of
                        Inl e \<Rightarrow> Inl e
                      | Inr fs \<Rightarrow>
                          Inr (EmbedReply
                                 \<lparr>title = crossed_swords @ '' '' @ name1 @ '' vs '' @ name2,
                                  description = None, embed_fields = fs\<rparr>)))))"


section \<open>Drop logging\<close>

definition log_drop :: "string \<Rightarrow> db \<Rightarrow> int \<Rightarrow> string \<Rightarrow> string option \<Rightarrow> reply \<times> db" where
  "log_drop now st user_id item rsn_in =
     (let accounts = map rsn (accounts_of st user_id);
          record_for = (\<lambda>selected_rsn.
            (EmbedReply \<lparr>title = party_popper @ '' Rare Drop!'',
                          description = Some (''**'' @ selected_rsn @ ''** received **'' @ item
                                              @ ''**!''),
                          embed_fields = []\<rparr>,
             insert_drop st \<lparr>drop_discord_id = user_id, drop_rsn = selected_rsn,
                               item_name = item, timestamp = now\<rparr>))
      in if accounts = [] then
           (Message ''You need to link an account first with `/link`.'' True, st)
         else if str_truthy rsn_in then
           (if \<not> (\<exists>a \<in> set accounts. py_lower a = py_lower (the rsn_in)) then
              (Message (''**'' @ the rsn_in @ ''** is not linked to your account.'') True, st)
            else record_for (the rsn_in))
         else record_for (hd accounts))"

definition view_drops :: "db \<Rightarrow> string option \<Rightarrow> reply" where
  "view_drops st rsn_in =
     (let drops = select_drops st rsn_in
      in if drops = [] then Message ''No drops logged yet!'' True
         else
           EmbedReply \<lparr>title = scroll @ '' Recent Drops'', description = None,
             embed_fields =
               map (\<lambda>d. (item_name d, ''**'' @ drop_rsn d @ ''** - '' @ take 10 (timestamp d), True))
                   drops\<rparr>)"

section \<open>Leaderboard\<close>

record player =
  pl_name :: string
  pl_xp :: int
  pl_level :: int

definition rank_label :: "nat \<Rightarrow> string" where
  \<comment> \<open>\<open>medals[i] if i < 3 else f"**{i+1}.**"\<close>\<close>
  "rank_label i = (if i < 3 then medals ! i else ''**'' @ str_int (int i + 1) @ ''.**'')"

definition ranking :: "player list \<Rightarrow> (nat \<times> player) list" where
  \<comment> \<open>\<open>enumerate(player_data[:10])\<close> after the sort\<close>
  "ranking player_data = enumerate 0 (take 10 (order_desc pl_xp player_data))"

definition leaderboard_line :: "nat \<times> player \<Rightarrow> error + string" where
  "leaderboard_line ip =
     (case format_number (pl_xp (snd ip)) of
        Inl e \<Rightarrow> Inl e
      | Inr shown \<Rightarrow>
          Inr (rank_label (fst ip) @ '' **'' @ pl_name (snd ip) @ ''** - '' @ shown
               @ '' XP (Level '' @ str_int (pl_level (snd ip)) @ '')'' @ [CHR 0x0A]))"

definition leaderboard_report :: "player list \<Rightarrow> error + reply" where
  \<comment> \<open>\<open>leaderboard\<close> from the sort on\<close>
  "leaderboard_report player_data =
     (case collect leaderboard_line (ranking player_data) of
        Inl e \<Rightarrow> Inl e
      | Inr ls \<Rightarrow>
          let leaderboard_text = concat ls
          in Inr (EmbedReply
                    \<lparr>title = trophy @ '' Clan Leaderboard'',
                     description = Some (if leaderboard_text \<noteq> [] then leaderboard_text
                                         else ''No data available''),
                     embed_fields = []\<rparr>))"

definition distinct_rsns :: "db \<Rightarrow> string list" where
  \<comment> \<open>\<open>SELECT DISTINCT rsn FROM linked_accounts\<close>, a scan of the index that keeps each name
      where it comes first\<close>
  "distinct_rsns st = rev (remdups (rev (map rsn (index_order (linked_accounts st)))))"

definition fetch_players :: "world \<Rightarrow> string list \<Rightarrow> player list" where
  \<comment> \<open>the loop that fetches one profile per account and skips the absent ones\<close>
  "fetch_players w accounts =
     concat (map (\<lambda>a. let data = fetch_runemetrics w a
                       in if profile_truthy data then
                            [\<lparr>pl_name = get_name (the data) a,
                              pl_xp = get_int (totalxp (the data)),
                              pl_level = get_int (totalskill (the data))\<rparr>]
                          else [])
                 accounts)"

definition leaderboard :: "world \<Rightarrow> db \<Rightarrow> error + reply" where
  "leaderboard w st =
     (let accounts = distinct_rsns st
      in if accounts = [] then Inr (Message ''No accounts linked yet!'' False)
         else leaderboard_report (fetch_players w accounts))"

section \<open>The command surface\<close>

datatype command =
    Link int string
  | Unlink int string
  | Accounts int
  | Stats int "string option"
  | Compare string string
  | Drop int string "string option"
  | Drops "string option"
  | Leaderboard

text \<open>
  One command invocation: the network as it answers during the invocation, the store's
  clock, the command with the caller's identity. An exception that escapes a command
  leaves the store as it was.
\<close>

fun exec :: "world \<Rightarrow> string \<Rightarrow> command \<Rightarrow> db \<Rightarrow> (error + reply) \<times> db" where
  "exec w now (Link user_id rsn_in) st =
     (let (r, st') = link_account w now st user_id rsn_in in (Inr r, st'))"
| "exec w now (Unlink user_id rsn_in) st =
     (let (r, st') = unlink_account st user_id rsn_in in (Inr r, st'))"
| "exec w now (Accounts user_id) st = (Inr (view_accounts st user_id), st)"
| "exec w now (Stats user_id rsn_in) st = (stats_lookup w st user_id rsn_in, st)"
| "exec w now (Compare rsn1 rsn2) st = (compare_stats w rsn1 rsn2, st)"
| "exec w now (Drop user_id item rsn_in) st =
     (let (r, st') = log_drop now st user_id item rsn_in in (Inr r, st'))"
| "exec w now (Drops rsn_in) st = (Inr (view_drops st rsn_in), st)"
| "exec w now Leaderboard st = (leaderboard w st, st)"

fun run :: "(world \<times> string \<times> command) list \<Rightarrow> db \<Rightarrow> db" where
  \<comment> \<open>a sequence of invocations, one after the other\<close>
  "run [] st = st"
| "run ((w, now, c) # cs) st = run cs (snd (exec w now c st))"


section \<open>Example inputs\<close>

definition zezima_profile :: profile where
  "zezima_profile =
     \<lparr>name = Some ''Zezima'', totalxp = Some 1500000000, totalskill = Some 2898,
      combatlevel = Some 138, questscomplete = Some 7, questsstarted = None,
      questsnotstarted = Some 5,
      activities = Some [\<lparr>act_text = Some ''Levelled up Mining.''\<rparr>],
      other_keys = [''rank'']\<rparr>"

definition iron_profile :: profile where
  "iron_profile =
     \<lparr>name = Some ''Iron Man'', totalxp = Some 500, totalskill = Some 40,
      combatlevel = Some 3, questscomplete = None, questsstarted = None,
      questsnotstarted = None, activities = None, other_keys = []\<rparr>"

definition zezima_first :: db where
  \<comment> \<open>caller 1 has linked \<open>Zezima\<close> and then \<open>Iron Man\<close>; nobody else has linked anything\<close>
  "zezima_first =
     \<lparr>linked_accounts = [\<lparr>discord_id = 1, rsn = ''Zezima'', linked_at = ''2024-05-01 10:00:00''\<rparr>,
                          \<lparr>discord_id = 1, rsn = ''Iron Man'', linked_at = ''2024-05-02 11:30:00''\<rparr>],
      drop_log = []\<rparr>"

definition accent_link :: db where
  \<comment> \<open>caller 3 has linked a name that starts with the capital E acute, U+00C9\<close>
  "accent_link =
     \<lparr>linked_accounts = [\<lparr>discord_id = 3, rsn = [CHR 0xC9, CHR ''l'', CHR ''a'', CHR ''n''],
                           linked_at = ''2024-05-03 09:00:00''\<rparr>],
      drop_log = []\<rparr>"




definition short_body :: string where
  \<comment> \<open>a response of four lines, the third with two fields only\<close>
  "short_body =
     ''5,2898,1500000000'' @ [CHR 0x0A] @ ''10,99,13034431'' @ [CHR 0x0A] @ ''-1,-1''
     @ [CHR 0x0A] @ ''12,98,12000000'' @ [CHR 0x0A]"

definition maxed_profile :: profile where
  \<comment> \<open>a profile whose total experience is the integer \<open>10 ^ 320\<close>\<close>
  "maxed_profile =
     \<lparr>name = Some ''Maxed'', totalxp = Some (10 ^ 320), totalskill = Some 3000,
      combatlevel = Some 152, questscomplete = Some 300, questsstarted = Some 0,
      questsnotstarted = Some 0, activities = None, other_keys = []\<rparr>"

definition example_world :: world where
  \<comment> \<open>the profile provider knows \<open>zezima\<close> under the name \<open>Zezima\<close>, \<open>iron_man\<close> under
      the name \<open>Iron Man\<close> and \<open>maxed\<close>; the skill-table provider answers for \<open>zezima\<close>
      and \<open>ghost\<close> with the table \<open>short_body\<close> and for \<open>blank\<close> with an empty body\<close>
  "example_world =
     \<lparr>http_json = (\<lambda>url. if url = RUNEMETRICS_URL ''zezima'' then Some (200, zezima_profile)
                          else if url = RUNEMETRICS_URL ''iron_man'' then Some (200, iron_profile)
                          else if url = RUNEMETRICS_URL ''maxed'' then Some (200, maxed_profile)
                          else None),
      http_text = (\<lambda>url. if url = HISCORES_URL ''zezima'' \<or> url = HISCORES_URL ''ghost''
                          then Some (200, short_body)
                          else if url = HISCORES_URL ''blank'' then Some (200, [])
                          else None)\<rparr>"

section \<open>Properties of the number formatting\<close>

subsection \<open>Rounding to a double\<close>

lemma floor_log2_bounds: "0 < n \<Longrightarrow> 2 ^ floor_log2 n \<le> n \<and> n < 2 * 2 ^ floor_log2 n"
proof (induction n rule: floor_log2.induct)
  case (1 n)
  show ?case
  proof (cases "n < 2")
    case True
    with 1(2) have "n = 1" by simp
    then show ?thesis by (simp add: floor_log2.simps)
  next
    case False
    then have "0 < n div 2" by simp
    with 1(1) False have IH: "2 ^ floor_log2 (n div 2) \<le> n div 2 \<and> n div 2 < 2 * 2 ^ floor_log2 (n div 2)"
      by simp
    have fl: "floor_log2 n = 1 + floor_log2 (n div 2)"
      using False by (subst floor_log2.simps) simp
    from IH show ?thesis unfolding fl by auto
  qed
qed

lemma rhe_unfold:
  "round_half_even a b =
     (if 2 * (a mod b) < b then a div b else if b < 2 * (a mod b) then a div b + 1
      else if even (a div b) then a div b else a div b + 1)"
  by (simp add: round_half_even_def Let_def)


lemma rhe_error:
  assumes "0 < b"
  shows "2 * (b * round_half_even a b) \<le> 2 * a + b" and "2 * a \<le> 2 * (b * round_half_even a b) + b"
proof -
  define q r where "q = a div b" and "r = a mod b"
  have a: "a = b * q + r" by (simp add: q_def r_def)
  have r: "0 \<le> r" "r < b" using assms by (simp_all add: r_def)
  have rhe: "round_half_even a b = (if 2 * r < b then q else if b < 2 * r then q + 1
      else if even q then q else q + 1)"
    by (simp add: rhe_unfold q_def r_def)
  have "round_half_even a b = q \<and> 2 * r \<le> b \<or> round_half_even a b = q + 1 \<and> b \<le> 2 * r"
    unfolding rhe by auto
  then show "2 * (b * round_half_even a b) \<le> 2 * a + b"
    and "2 * a \<le> 2 * (b * round_half_even a b) + b"
    using r unfolding a by (auto simp: algebra_simps)
qed


lemma div_ge_iff: 
  fixes a b L :: int
  assumes "0 < b" 
  shows "(L \<le> a div b) = (L * b \<le> a)"
proof
  assume "L \<le> a div b"
  then have "L * b \<le> (a div b) * b" using assms by (simp add: mult_right_mono)
  also have "\<dots> \<le> a"
    using pos_mod_sign[OF assms, of a] mult_div_mod_eq[of b a] mult.commute[of b "a div b"]
    by linarith
  finally show "L * b \<le> a" .
next
  assume h: "L * b \<le> a"
  show "L \<le> a div b"
  proof (rule ccontr)
    assume "\<not> L \<le> a div b"
    then have "a div b + 1 \<le> L" by simp
    then have "(a div b + 1) * b \<le> L * b" using assms by (simp add: mult_right_mono)
    moreover have "(a div b + 1) * b = b * (a div b) + b" by (simp add: algebra_simps)
    then have "a < (a div b + 1) * b"
      using pos_mod_bound[OF assms, of a] mult_div_mod_eq[of b a] by linarith
    ultimately show False using h by simp
  qed
qed

lemma div_less_iff:
  fixes a b U :: int
  assumes "0 < b" 
  shows "(a div b < U) = (a < U * b)"
  using div_ge_iff[OF assms, of U a] by auto

lemma rhe_lower_bound:
  assumes "0 < b" and "L * b \<le> a"
  shows "L \<le> round_half_even a b"
proof -
  have "L \<le> a div b" using assms by (simp add: div_ge_iff)
  then show ?thesis by (auto simp: rhe_unfold)
qed

lemma rhe_upper_bound:
  assumes "0 < b" and "a \<le> U * b"
  shows "round_half_even a b \<le> U"
proof (cases "a div b < U")
  case True
  then show ?thesis by (auto simp: rhe_unfold)
next
  case False
  then have "U * b \<le> a" using div_ge_iff[OF assms(1), of U a] by simp
  with assms(2) have a: "a = U * b" by simp
  with assms(1) show ?thesis by (simp add: rhe_unfold)
qed

lemma rhe_ge_even_iff:
  assumes "0 < b" and "even K"
  shows "(K \<le> round_half_even a b) = ((2 * K - 1) * b \<le> 2 * a)"
proof -
  define q r where "q = a div b" and "r = a mod b"
  have a: "a = b * q + r" by (simp add: q_def r_def)
  have r: "0 \<le> r" "r < b" using assms by (simp_all add: r_def)
  have rhe: "round_half_even a b = (if 2 * r < b then q else if b < 2 * r then q + 1
      else if even q then q else q + 1)"
    by (simp add: rhe_unfold q_def r_def)
  have lhs: "(2 * K - 1) * b = 2 * (b * K) - b" by (simp add: algebra_simps)
  have rhs: "2 * a = 2 * (b * q) + 2 * r" by (simp add: a)
  consider "K \<le> q" | "K = q + 1" | "q + 1 < K" by linarith
  then show ?thesis
  proof cases
    case 1
    then have "b * K \<le> b * q" using assms(1) by (simp add: mult_left_mono)
    then have "(2 * K - 1) * b \<le> 2 * a" using r assms(1) unfolding lhs rhs by linarith
    moreover have "K \<le> round_half_even a b" using 1 unfolding rhe by auto
    ultimately show ?thesis by simp
  next
    case 2
    then have "odd q" using assms(2) by simp
    then have "(K \<le> round_half_even a b) = (b \<le> 2 * r)" unfolding rhe using 2 by auto
    moreover have "b * K = b * q + b" unfolding 2 by (simp add: algebra_simps)
    then have "((2 * K - 1) * b \<le> 2 * a) = (b \<le> 2 * r)"
      unfolding lhs rhs by linarith
    ultimately show ?thesis by simp
  next
    case 3
    then have "q + 2 \<le> K" by simp
    then have "b * (q + 2) \<le> b * K" using assms(1) by (simp add: mult_left_mono)
    then have "b * q + 2 * b \<le> b * K" by (simp add: algebra_simps)
    then have "\<not> (2 * K - 1) * b \<le> 2 * a" using r assms(1) unfolding lhs rhs by linarith
    moreover have "\<not> K \<le> round_half_even a b" using 3 unfolding rhe by auto
    ultimately show ?thesis by simp
  qed
qed


lemma quotient_exponent_bounds:
  assumes "0 < b" and "b \<le> a"
  shows "2 ^ quotient_exponent a b * b \<le> a" and "a < 2 * 2 ^ quotient_exponent a b * b"
proof -
  define q where "q = nat (a div b)"
  have "1 \<le> a div b" using assms by (simp add: div_ge_iff)
  then have q: "0 < q" "int q = a div b" by (simp_all add: q_def)
  from floor_log2_bounds[OF q(1)]
  have "2 ^ floor_log2 q \<le> q" "q < 2 * 2 ^ floor_log2 q" by simp_all
  then have "int (2 ^ floor_log2 q) \<le> int q" "int q < int (2 * 2 ^ floor_log2 q)"
    by (simp_all only: of_nat_le_iff of_nat_less_iff)
  then have b: "2 ^ floor_log2 q \<le> a div b" "a div b < 2 * 2 ^ floor_log2 q"
    by (simp_all add: q(2))
  have e: "quotient_exponent a b = floor_log2 q" by (simp add: quotient_exponent_def q_def)
  show "2 ^ quotient_exponent a b * b \<le> a"
    using b(1) assms(1) unfolding e by (simp add: div_ge_iff)
  show "a < 2 * 2 ^ quotient_exponent a b * b"
    using b(2) div_less_iff[OF assms(1), of a "2 * 2 ^ floor_log2 q"] unfolding e by simp
qed

lemma pow2_split: "n \<le> e \<Longrightarrow> (2::int) ^ e = 2 ^ n * 2 ^ (e - n)"
  by (simp flip: power_add)

lemma pow2_split_Suc: "n \<le> e \<Longrightarrow> (2::int) * 2 ^ e = 2 ^ Suc n * 2 ^ (e - n)"
  using pow2_split[of n e] by simp

lemma scaled_bounds_high:
  fixes a b :: int
  assumes "2 ^ e * b \<le> a" and "a < 2 * 2 ^ e * b" and "n \<le> e"
  shows "2 ^ n * (b * 2 ^ (e - n)) \<le> a" and "a \<le> 2 ^ Suc n * (b * 2 ^ (e - n))"
proof -
  have "2 ^ n * (b * 2 ^ (e - n)) = (2 ^ n * 2 ^ (e - n)) * b" by (simp add: ac_simps)
  also have "\<dots> = 2 ^ e * b" by (simp only: pow2_split[OF assms(3), symmetric])
  finally have eq1: "2 ^ n * (b * 2 ^ (e - n)) = 2 ^ e * b" .
  show "2 ^ n * (b * 2 ^ (e - n)) \<le> a" unfolding eq1 by (rule assms(1))
  have "2 ^ Suc n * (b * 2 ^ (e - n)) = (2 ^ Suc n * 2 ^ (e - n)) * b" by (simp add: ac_simps)
  also have "\<dots> = 2 * 2 ^ e * b" by (simp only: pow2_split_Suc[OF assms(3), symmetric])
  finally have eq2: "2 ^ Suc n * (b * 2 ^ (e - n)) = 2 * 2 ^ e * b" .
  show "a \<le> 2 ^ Suc n * (b * 2 ^ (e - n))" unfolding eq2 using assms(2) by (rule less_imp_le)
qed

lemma scaled_bounds_low:
  fixes a b :: int
  assumes "2 ^ e * b \<le> a" and "a < 2 * 2 ^ e * b" and "e \<le> n"
  shows "2 ^ n * b \<le> a * 2 ^ (n - e)" and "a * 2 ^ (n - e) \<le> 2 ^ Suc n * b"
proof -
  have "2 ^ n * b = (2 ^ e * 2 ^ (n - e)) * b" by (simp only: pow2_split[OF assms(3), symmetric])
  also have "\<dots> = (2 ^ e * b) * 2 ^ (n - e)" by (simp add: ac_simps)
  also have "\<dots> \<le> a * 2 ^ (n - e)" using assms(1) by (intro mult_right_mono) simp_all
  finally show "2 ^ n * b \<le> a * 2 ^ (n - e)" .
  have "a * 2 ^ (n - e) \<le> (2 * 2 ^ e * b) * 2 ^ (n - e)"
    using assms(2) by (intro mult_right_mono) simp_all
  also have "\<dots> = (2 * (2 ^ e * 2 ^ (n - e))) * b" by (simp add: ac_simps)
  also have "\<dots> = 2 ^ Suc n * b" by (simp only: pow2_split[OF assms(3), symmetric] power_Suc)
  finally show "a * 2 ^ (n - e) \<le> 2 ^ Suc n * b" .
qed

lemma mantissa_core:
  fixes a b m :: int
  assumes b: "0 < b" and lo: "2 ^ e * b \<le> a" and hi: "a < 2 * 2 ^ e * b"
    and m: "m = (if p \<le> e then round_half_even a (b * 2 ^ (e - p))
                 else round_half_even (a * 2 ^ (p - e)) b)"
  shows "2 ^ p \<le> m" and "m \<le> 2 ^ Suc p"
proof -
  show "2 ^ p \<le> m"
  proof (cases "p \<le> e")
    case True
    have "2 ^ p \<le> round_half_even a (b * 2 ^ (e - p))"
      using b scaled_bounds_high(1)[OF lo hi True] by (intro rhe_lower_bound) simp_all
    then show ?thesis using True by (simp add: m)
  next
    case False
    then have le: "e \<le> p" by simp
    have "2 ^ p \<le> round_half_even (a * 2 ^ (p - e)) b"
      using b scaled_bounds_low(1)[OF lo hi le] by (intro rhe_lower_bound) simp_all
    then show ?thesis using False by (simp add: m)
  qed
  show "m \<le> 2 ^ Suc p"
  proof (cases "p \<le> e")
    case True
    have "round_half_even a (b * 2 ^ (e - p)) \<le> 2 ^ Suc p"
      using b scaled_bounds_high(2)[OF lo hi True] by (intro rhe_upper_bound) simp_all
    then show ?thesis using True by (simp add: m)
  next
    case False
    then have le: "e \<le> p" by simp
    have "round_half_even (a * 2 ^ (p - e)) b \<le> 2 ^ Suc p"
      using b scaled_bounds_low(2)[OF lo hi le] by (intro rhe_upper_bound) simp_all
    then show ?thesis using False by (simp add: m)
  qed
qed

lemma overflow_core:
  fixes a b m :: int
  assumes b: "0 < b" and lo: "2 ^ e * b \<le> a" and hi: "a < 2 * 2 ^ e * b"
    and m: "m = (if p \<le> e then round_half_even a (b * 2 ^ (e - p))
                 else round_half_even (a * 2 ^ (p - e)) b)"
    and X: "p + 2 \<le> X"
  shows "(p \<le> e \<and> 2 ^ X \<le> m * 2 ^ (e - p)) = ((2 ^ X - 2 ^ (X - p - 2)) * b \<le> a)"
proof -
  define T :: int where "T = 2 ^ (X - p - 2)"
  have T: "0 < T" by (simp add: T_def)
  have mb: "2 ^ p \<le> m" "m \<le> 2 ^ Suc p" using mantissa_core[OF b lo hi m] by simp_all
  have XT: "(2::int) ^ X = 2 ^ (p + 2) * T"
    using pow2_split[of "p + 2" X] X by (simp add: T_def)
  consider "Suc e < X" | "Suc e = X" | "X \<le> e" by linarith
  then show ?thesis
  proof cases
    case 1
    then have "Suc e \<le> X - 1" by simp
    then have "(2::int) ^ Suc e \<le> 2 ^ (X - 1)" by (intro power_increasing) simp_all
    moreover have "(2::int) ^ X = 2 * 2 ^ (X - 1)" using X by (cases X) simp_all
    moreover have "T \<le> 2 ^ (X - 1)" unfolding T_def by (intro power_increasing) simp_all
    ultimately have big: "2 * 2 ^ e \<le> 2 ^ X - T" by simp
    then have "2 * 2 ^ e * b \<le> (2 ^ X - T) * b" using b by (intro mult_right_mono) simp_all
    then have rhs: "\<not> (2 ^ X - T) * b \<le> a" using hi by simp
    have lhs: "\<not> (p \<le> e \<and> 2 ^ X \<le> m * 2 ^ (e - p))"
    proof
      assume h: "p \<le> e \<and> 2 ^ X \<le> m * 2 ^ (e - p)"
      have "m * 2 ^ (e - p) \<le> 2 ^ Suc p * 2 ^ (e - p)"
        using mb(2) by (intro mult_right_mono) simp_all
      also have "\<dots> = 2 * 2 ^ e" by (simp only: pow2_split_Suc[of p e, OF conjunct1[OF h]])
      finally have "2 ^ X \<le> (2::int) * 2 ^ e" using h by simp
      moreover have "(2::int) ^ Suc e < 2 ^ X" using 1 by (intro power_strict_increasing) simp_all
      ultimately show False by simp
    qed
    from lhs rhs show ?thesis by (simp add: T_def)
  next
    case 2
    then have pe: "p \<le> e" and ep: "e - p = Suc (X - p - 2)" using X by simp_all
    define B where "B = b * 2 ^ (e - p)"
    have B: "0 < B" using b by (simp add: B_def)
    have mB: "m = round_half_even a B" using pe by (simp add: m B_def)
    have "(2::int) ^ X = 2 * 2 ^ e" unfolding 2[symmetric] by simp
    also have "\<dots> = 2 ^ Suc p * 2 ^ (e - p)" by (rule pow2_split_Suc[OF pe])
    finally have XB: "(2::int) ^ X = 2 ^ Suc p * 2 ^ (e - p)" .
    have "(2 ^ X \<le> m * 2 ^ (e - p)) = (2 ^ Suc p \<le> m)"
      unfolding XB by simp
    also have "\<dots> = ((2 * 2 ^ Suc p - 1) * B \<le> 2 * a)"
      unfolding mB using B by (intro rhe_ge_even_iff) simp_all
    also have "(2 * 2 ^ Suc p - 1) * B = 2 * ((2 ^ X - T) * b)"
      unfolding B_def ep XT by (simp add: T_def algebra_simps)
    finally show ?thesis using pe by (simp add: T_def)
  next
    case 3
    then have pe: "p \<le> e" using X by simp
    have Xe: "(2::int) ^ X \<le> 2 ^ e" using 3 by (intro power_increasing) simp_all
    also have "2 ^ e = (2::int) ^ p * 2 ^ (e - p)" using pow2_split[OF pe] .
    also have "2 ^ p * 2 ^ (e - p) \<le> m * 2 ^ (e - p)"
      using mb(1) by (intro mult_right_mono) simp_all
    finally have lhs: "2 ^ X \<le> m * 2 ^ (e - p)" .
    have "(2 ^ X - T) * b \<le> 2 ^ X * b" using T b by (intro mult_right_mono) simp_all
    also have "\<dots> \<le> 2 ^ e * b" using Xe b by (intro mult_right_mono) simp_all
    also note lo
    finally have rhs: "(2 ^ X - T) * b \<le> a" .
    from lhs rhs pe show ?thesis by (simp add: T_def)
  qed
qed

lemma quotient_mantissa_eq:
  "quotient_mantissa a b =
     (if 52 \<le> quotient_exponent a b then round_half_even a (b * 2 ^ (quotient_exponent a b - 52))
      else round_half_even (a * 2 ^ (52 - quotient_exponent a b)) b)"
  by (simp add: quotient_mantissa_def Let_def)

lemma quotient_mantissa_bounds:
  assumes "0 < b" and "b \<le> a"
  shows "2 ^ 52 \<le> quotient_mantissa a b" and "quotient_mantissa a b \<le> 2 ^ 53"
  using mantissa_core[OF assms(1) quotient_exponent_bounds[OF assms] quotient_mantissa_eq]
  by simp_all

lemma int_true_divide_overflow_iff:
  assumes "0 < b" and "b \<le> a"
  shows "(int_true_divide a b = Inl OverflowError) = ((2 ^ 1024 - 2 ^ 970) * b \<le> a)"
proof -
  have "(52 \<le> quotient_exponent a b
          \<and> 2 ^ 1024 \<le> quotient_mantissa a b * 2 ^ (quotient_exponent a b - 52))
        = ((2 ^ 1024 - 2 ^ (1024 - 52 - 2)) * b \<le> a)"
    by (rule overflow_core[OF assms(1) quotient_exponent_bounds[OF assms] quotient_mantissa_eq])
       simp
  then show ?thesis by (simp add: int_true_divide_def Let_def)
qed



subsection \<open>Evaluation on numerals\<close>

lemma floor_log2_numeral:
  "floor_log2 (numeral k) = (if numeral k < (2::nat) then 0 else 1 + floor_log2 (numeral k div 2))"
  by (rule floor_log2.simps)

lemma floor_log2_small: "floor_log2 0 = 0" "floor_log2 1 = 0" "floor_log2 (Suc 0) = 0"
  by (simp_all add: floor_log2.simps)

lemma digits_of_numeral:
  "digits_of (numeral k) = (if numeral k < (10::nat) then [digit_char (numeral k)]
     else digits_of (numeral k div 10) @ [digit_char (numeral k mod 10)])"
  by (rule digits_of.simps)

lemma digits_of_small: "digits_of 0 = ''0''" "digits_of 1 = ''1''" "digits_of (Suc 0) = ''1''"
  by (simp_all add: digits_of.simps digit_char_def)

lemma frac_digits_numeral:
  "frac_digits (numeral w) n = frac_digits (numeral w - 1) (n div 10) @ [digit_char (n mod 10)]"
  by (subst frac_digits.simps) simp

lemma frac_digits_small: "frac_digits 0 n = []" "frac_digits 1 n = [digit_char (n mod 10)]"
  "frac_digits (Suc 0) n = [digit_char (n mod 10)]"
  by (simp_all add: frac_digits.simps)

lemmas number_eval = format_number_def int_true_divide_def quotient_exponent_def
  quotient_mantissa_def round_half_even_def scaled_round_def format_fixed_def fixed_point_def
  str_int_def digit_char_def floor_log2_numeral floor_log2_small digits_of_numeral
  digits_of_small frac_digits_numeral frac_digits_small Let_def


section \<open>The single-player report\<close>

lemma field_names_quest: "\<forall>f \<in> set (quest_field d). fst f = ''Quests''"
  by (simp add: quest_field_def)

lemma field_names_activity: "\<forall>f \<in> set (activity_field d). fst f = ''Recent Activity''"
  by (simp add: activity_field_def split: option.splits list.splits)

lemma filter_all: "\<forall>x \<in> set xs. P x \<Longrightarrow> filter P xs = xs"
  by (induction xs) auto

lemma filter_none: "\<forall>x \<in> set xs. \<not> P x \<Longrightarrow> filter P xs = []"
  by (induction xs) auto

lemma quests_of_profile_fields:
  assumes "profile_fields d = Inr fs"
  shows "filter (\<lambda>f. fst f = ''Quests'') fs = quest_field d"
proof -
  obtain shown where fs: "fs = [(''Total XP'', shown, True),
       (''Total Level'', str_int (get_int (totalskill d)), True),
       (''Combat Level'', str_int (get_int (combatlevel d)), True)]
      @ quest_field d @ activity_field d"
    using assms by (auto simp: profile_fields_def split: sum.splits)
  have "filter (\<lambda>f. fst f = ''Quests'') (quest_field d) = quest_field d"
    using field_names_quest by (intro filter_all) simp
  moreover have "filter (\<lambda>f. fst f = ''Quests'') (activity_field d) = []"
    using field_names_activity[of d] by (intro filter_none) auto
  ultimately show ?thesis by (simp add: fs)
qed


text \<open>
  Claim C3, as the code has it. The quest field of the single-player report is guarded by
  the truth value of the complete count: when that count is present and not zero the field
  reads complete/(started + complete + not started), the started and not-started counts
  defaulting to 0 when absent; when the complete count is absent or 0 the report has no
  quest field at all. Whatever the profile block renders, its fields named Quests are
  exactly that field.
\<close>

theorem quest_ratio_when_complete_nonzero:
  "(profile_fields d = Inr fs \<longrightarrow> filter (\<lambda>f. fst f = ''Quests'') fs = quest_field d)
   \<and> (questscomplete d = Some c \<and> c \<noteq> 0 \<longrightarrow>
        quest_field d =
          [(''Quests'',
            str_int c @ ''/''
            @ str_int (get_int (questsstarted d) + c + get_int (questsnotstarted d)), True)])
   \<and> (questsstarted d = None \<longrightarrow> get_int (questsstarted d) = 0)
   \<and> (questsnotstarted d = None \<longrightarrow> get_int (questsnotstarted d) = 0)
   \<and> (questscomplete d = None \<or> questscomplete d = Some 0 \<longrightarrow> quest_field d = [])"
  using quests_of_profile_fields[of d fs]
  by (auto simp: quest_field_def int_truthy_def get_int_def)


text \<open>The amended statement at a profile with 7 quests complete and no started count, and
  at one without a complete count.\<close>

theorem quest_ratio_when_complete_nonzero_witness:
  "profile_fields \<lparr>name = Some ''Zezima'', totalxp = Some 1500, totalskill = Some 40,
       combatlevel = Some 3, questscomplete = Some 7, questsstarted = None,
       questsnotstarted = Some 5, activities = None, other_keys = []\<rparr>
   = Inr [(''Total XP'', ''1.5K'', True), (''Total Level'', ''40'', True),
          (''Combat Level'', ''3'', True), (''Quests'', ''7/12'', True)]
   \<and> quest_field \<lparr>name = Some ''Zezima'', totalxp = Some 1500, totalskill = Some 40,
       combatlevel = Some 3, questscomplete = Some 7, questsstarted = None,
       questsnotstarted = Some 5, activities = None, other_keys = []\<rparr>
      = [(''Quests'', ''7/12'', True)]
   \<and> quest_field \<lparr>name = None, totalxp = None, totalskill = None,
       combatlevel = None, questscomplete = None, questsstarted = Some 1,
       questsnotstarted = Some 5, activities = None, other_keys = [''rank'']\<rparr> = []"
  using quest_ratio_when_complete_nonzero[of
      "\<lparr>name = Some ''Zezima'', totalxp = Some 1500, totalskill = Some 40,
        combatlevel = Some 3, questscomplete = Some 7, questsstarted = None,
        questsnotstarted = Some 5, activities = None, other_keys = []\<rparr>"
      "[(''Total XP'', ''1.5K'', True), (''Total Level'', ''40'', True),
        (''Combat Level'', ''3'', True), (''Quests'', ''7/12'', True)]" 7]
    quest_ratio_when_complete_nonzero[of
      "\<lparr>name = None, totalxp = None, totalskill = None,
       combatlevel = None, questscomplete = None, questsstarted = Some 1,
       questsnotstarted = Some 5, activities = None, other_keys = [''rank'']\<rparr>" "[]" 1]
  by (simp add: profile_fields_def quest_field_def activity_field_def int_truthy_def get_int_def
      number_eval)


text \<open>
  The claim as written promises a ratio with numerator 0 when the complete count is 0. A
  profile with 0 complete, 2 started and 5 not started renders three fields and no ratio.
\<close>

theorem quest_ratio_zero_complete_counterexample:
  "profile_fields \<lparr>name = Some ''Zezima'', totalxp = Some 0, totalskill = Some 0,
       combatlevel = Some 0, questscomplete = Some 0, questsstarted = Some 2,
       questsnotstarted = Some 5, activities = None, other_keys = []\<rparr>
   = Inr [(''Total XP'', ''0'', True), (''Total Level'', ''0'', True),
          (''Combat Level'', ''0'', True)]"
  by (simp add: profile_fields_def quest_field_def activity_field_def int_truthy_def get_int_def
      number_eval)

section \<open>The leaderboard\<close>







lemma collect_fails:
  "collect f xs = Inl e \<Longrightarrow> \<exists>x \<in> set xs. f x = Inl e"
  by (induction xs) (auto split: sum.splits)









section \<open>Account links\<close>

lemma accounts_of_by_name:
  "accounts_of st u = sort_key rsn (filter (\<lambda>r. discord_id r = u) (linked_accounts st))"
proof -
  have "filter (\<lambda>r. discord_id r = u) (sort_key discord_id (sort_key rsn (linked_accounts st)))
        = filter (\<lambda>r. discord_id r = u) (sort_key rsn (linked_accounts st))"
    by (rule sort_key_stable)
  also have "\<dots> = sort_key rsn (filter (\<lambda>r. discord_id r = u) (linked_accounts st))"
    by (rule filter_sort)
  finally show ?thesis by (simp add: accounts_of_def index_order_def)
qed

lemma accounts_of_set:
  "set (accounts_of st u) = {r \<in> set (linked_accounts st). discord_id r = u}"
  by (auto simp: accounts_of_by_name)

lemma accounts_of_empty:
  "(accounts_of st u = []) = (\<forall>r \<in> set (linked_accounts st). discord_id r \<noteq> u)"
proof -
  have "(accounts_of st u = []) = (set (accounts_of st u) = {})" by simp
  then show ?thesis unfolding accounts_of_set by auto
qed


lemma accounts_of_least:
  assumes "accounts_of st u = a # rest"
  shows "a \<in> set (linked_accounts st)" and "discord_id a = u"
    and "\<forall>r \<in> set (linked_accounts st). discord_id r = u \<longrightarrow> rsn a \<le> rsn r"
proof -
  have "a \<in> set (accounts_of st u)" using assms by simp
  then show "a \<in> set (linked_accounts st)" and "discord_id a = u"
    unfolding accounts_of_set by simp_all
  have "sorted (map rsn (accounts_of st u))" by (simp add: accounts_of_by_name)
  then have "\<forall>r \<in> set rest. rsn a \<le> rsn r" using assms by simp
  then have "\<forall>r \<in> set (accounts_of st u). rsn a \<le> rsn r" using assms by simp
  then show "\<forall>r \<in> set (linked_accounts st). discord_id r = u \<longrightarrow> rsn a \<le> rsn r"
    unfolding accounts_of_set by simp
qed

lemma link_account_not_found:
  "\<not> profile_truthy (fetch_runemetrics w r) \<Longrightarrow>
   link_account w now st u r =
     (Message (cross_mark @ '' Could not find player **'' @ r
               @ ''**. Make sure the name is correct and the profile is public.'') True, st)"
  by (simp add: link_account_def)

lemma link_account_duplicate:
  assumes "profile_truthy (fetch_runemetrics w r)"
    and "\<exists>row \<in> set (linked_accounts st).
           discord_id row = u \<and> rsn row = get_name (the (fetch_runemetrics w r)) r"
  shows "link_account w now st u r =
     (Message (warning_sign @ '' **'' @ get_name (the (fetch_runemetrics w r)) r
               @ ''** is already linked to your account.'') True, st)"
  using assms by (simp add: link_account_def insert_link_def Let_def)

lemma link_account_success:
  assumes "profile_truthy (fetch_runemetrics w r)"
    and "\<not> (\<exists>row \<in> set (linked_accounts st).
           discord_id row = u \<and> rsn row = get_name (the (fetch_runemetrics w r)) r)"
  shows "link_account w now st u r =
     (Message (check_mark @ '' Successfully linked **'' @ get_name (the (fetch_runemetrics w r)) r
               @ ''** to your Discord account!'') False,
      st\<lparr>linked_accounts := linked_accounts st
           @ [\<lparr>discord_id = u, rsn = get_name (the (fetch_runemetrics w r)) r,
               linked_at = now\<rparr>]\<rparr>)"
  using assms by (simp add: link_account_def insert_link_def Let_def)

lemma unlink_account_eq:
  "unlink_account st u r =
     (if \<exists>row \<in> set (linked_accounts st). discord_id row = u \<and> sql_lower (rsn row) = sql_lower r
      then (Message (check_mark @ '' Unlinked **'' @ r @ ''** from your account.'') False,
            st\<lparr>linked_accounts :=
                 filter (\<lambda>row. \<not> (discord_id row = u \<and> sql_lower (rsn row) = sql_lower r))
                   (linked_accounts st)\<rparr>)
      else (Message (cross_mark @ '' **'' @ r @ ''** is not linked to your account.'') True, st))"
proof -
  let ?hit = "\<lambda>row. discord_id row = u \<and> sql_lower (rsn row) = sql_lower r"
  have pos: "(0 < length (filter ?hit (linked_accounts st))) = (\<exists>row \<in> set (linked_accounts st). ?hit row)"
    by (simp add: filter_empty_conv)
  have same: "\<not> (\<exists>row \<in> set (linked_accounts st). ?hit row) \<Longrightarrow>
      filter (\<lambda>row. \<not> ?hit row) (linked_accounts st) = linked_accounts st"
    by (simp add: filter_id_conv)
  show ?thesis
    unfolding unlink_account_def delete_link_def Let_def split_conv pos
    using same by auto
qed

lemma link_account_unique: "unique_links st \<Longrightarrow> unique_links (snd (link_account w now st u r))"
proof (cases "profile_truthy (fetch_runemetrics w r)")
  case False
  then show "unique_links st \<Longrightarrow> ?thesis" by (simp add: link_account_not_found)
next
  case True
  assume inv: "unique_links st"
  show ?thesis
  proof (cases "\<exists>row \<in> set (linked_accounts st).
           discord_id row = u \<and> rsn row = get_name (the (fetch_runemetrics w r)) r")
    case dup: True
    show ?thesis using inv by (simp add: link_account_duplicate[OF True dup])
  next
    case new: False
    show ?thesis using inv new
      by (auto simp: link_account_success[OF True new] unique_links_def)
  qed
qed

lemma unlink_account_unique: "unique_links st \<Longrightarrow> unique_links (snd (unlink_account st u r))"
  by (simp add: unlink_account_eq unique_links_def distinct_map_filter)

lemma log_drop_links: "linked_accounts (snd (log_drop now st u item ro)) = linked_accounts st"
  by (simp add: log_drop_def insert_drop_def Let_def)

lemma exec_unique: "unique_links st \<Longrightarrow> unique_links (snd (exec w now c st))"
proof (cases c)
  case (Link u r)
  then show "unique_links st \<Longrightarrow> ?thesis"
    using link_account_unique[of st w now u r] by (simp add: split_beta)
next
  case (Unlink u r)
  then show "unique_links st \<Longrightarrow> ?thesis"
    using unlink_account_unique[of st u r] by (simp add: split_beta)
next
  case (Drop u item ro)
  then show "unique_links st \<Longrightarrow> ?thesis"
    using log_drop_links[of now st u item ro] by (simp add: split_beta unique_links_def)
qed simp_all

lemma run_unique: "unique_links st \<Longrightarrow> unique_links (run cs st)"
proof (induction cs arbitrary: st)
  case Nil
  then show ?case by simp
next
  case (Cons x cs)
  obtain w now c where x: "x = (w, now, c)" by (cases x) auto
  show ?case using Cons.IH[OF exec_unique[OF Cons.prems, of w now c]] by (simp add: x)
qed

lemma filter_key_distinct:
  "distinct (map f xs) \<Longrightarrow> x \<in> set xs \<Longrightarrow> length (filter (\<lambda>y. f y = f x) xs) = 1"
proof (induction xs)
  case Nil
  then show ?case by simp
next
  case (Cons a xs)
  show ?case
  proof (cases "f a = f x")
    case True
    then have "\<forall>y \<in> set xs. f y \<noteq> f x" using Cons.prems(1) by (auto simp: image_iff)
    then have "filter (\<lambda>y. f y = f x) xs = []" by (simp add: filter_empty_conv)
    then show ?thesis using True by simp
  next
    case False
    then have "x \<in> set xs" using Cons.prems(2) by auto
    then show ?thesis using Cons False by simp
  qed
qed

lemma one_row_per_link:
  assumes "unique_links st" and "row \<in> set (linked_accounts st)"
    and "discord_id row = u" and "rsn row = nm"
  shows "length (filter (\<lambda>r. discord_id r = u \<and> rsn r = nm) (linked_accounts st)) = 1"
  using filter_key_distinct[of "\<lambda>r. (discord_id r, rsn r)" "linked_accounts st" row] assms
  by (simp add: unique_links_def)

lemma fetch_example:
  "fetch_runemetrics example_world ''zezima'' = Some zezima_profile"
  "fetch_runemetrics example_world ''iron_man'' = Some iron_profile"
  "profile_truthy (Some zezima_profile)" "profile_truthy (Some iron_profile)"
  "get_name zezima_profile r = ''Zezima''" "get_name iron_profile r = ''Iron Man''"
  by (simp_all add: fetch_runemetrics_def example_world_def RUNEMETRICS_URL_def
      py_replace_space_def zezima_profile_def iron_profile_def profile_truthy_def
      dict_truthy_def get_name_def)

text \<open>
  Claim C8. The table \<open>linked_accounts\<close> never holds one (caller, name) pair twice: that
  holds of the empty store and is kept by every command, hence by every sequence of
  invocations. A second \<open>link\<close> by the same caller that resolves to the same canonical name
  is answered with the already-linked message, changes nothing, and leaves exactly one row
  for the pair. Two different callers who link the same name, neither having it linked
  before, are both answered with the success message and each gets a row.
\<close>

theorem link_unique_per_caller:
  "unique_links init_db
   \<and> (unique_links st \<longrightarrow> unique_links (snd (exec w now c st)) \<and> unique_links (run cs st))
   \<and> (unique_links st \<and> profile_truthy (fetch_runemetrics w r)
       \<and> profile_truthy (fetch_runemetrics w' r')
       \<and> get_name (the (fetch_runemetrics w r)) r = nm
       \<and> get_name (the (fetch_runemetrics w' r')) r' = nm
       \<longrightarrow> link_account w' now' (snd (link_account w now st u r)) u r'
             = (Message (warning_sign @ '' **'' @ nm @ ''** is already linked to your account.'')
                  True, snd (link_account w now st u r))
           \<and> length (filter (\<lambda>row. discord_id row = u \<and> rsn row = nm)
                       (linked_accounts (snd (link_account w now st u r)))) = 1)
   \<and> (u1 \<noteq> u2 \<and> profile_truthy (fetch_runemetrics w r)
       \<and> profile_truthy (fetch_runemetrics w' r')
       \<and> get_name (the (fetch_runemetrics w r)) r = nm
       \<and> get_name (the (fetch_runemetrics w' r')) r' = nm
       \<and> \<not> (\<exists>row \<in> set (linked_accounts st).
               (discord_id row = u1 \<or> discord_id row = u2) \<and> rsn row = nm)
       \<longrightarrow> link_account w now st u1 r
             = (Message (check_mark @ '' Successfully linked **'' @ nm
                         @ ''** to your Discord account!'') False,
                st\<lparr>linked_accounts := linked_accounts st
                     @ [\<lparr>discord_id = u1, rsn = nm, linked_at = now\<rparr>]\<rparr>)
           \<and> link_account w' now' (snd (link_account w now st u1 r)) u2 r'
             = (Message (check_mark @ '' Successfully linked **'' @ nm
                         @ ''** to your Discord account!'') False,
                st\<lparr>linked_accounts := linked_accounts st
                     @ [\<lparr>discord_id = u1, rsn = nm, linked_at = now\<rparr>,
                        \<lparr>discord_id = u2, rsn = nm, linked_at = now'\<rparr>]\<rparr>))"
proof (intro conjI impI)
  show "unique_links init_db" by (simp add: unique_links_def init_db_def)
next
  assume "unique_links st"
  then show "unique_links (snd (exec w now c st))" by (rule exec_unique)
next
  assume "unique_links st"
  then show "unique_links (run cs st)" by (rule run_unique)
next
  assume h: "unique_links st \<and> profile_truthy (fetch_runemetrics w r)
       \<and> profile_truthy (fetch_runemetrics w' r')
       \<and> get_name (the (fetch_runemetrics w r)) r = nm
       \<and> get_name (the (fetch_runemetrics w' r')) r' = nm"
  define st1 where "st1 = snd (link_account w now st u r)"
  have inv1: "unique_links st1" using h link_account_unique[of st w now u r] by (simp add: st1_def)
  have ex: "\<exists>row \<in> set (linked_accounts st1). discord_id row = u \<and> rsn row = nm"
  proof (cases "\<exists>row \<in> set (linked_accounts st). discord_id row = u \<and> rsn row = nm")
    case True
    then show ?thesis using h by (simp add: st1_def link_account_duplicate)
  next
    case False
    then show ?thesis using h by (simp add: st1_def link_account_success)
  qed
  then show "link_account w' now' (snd (link_account w now st u r)) u r'
             = (Message (warning_sign @ '' **'' @ nm @ ''** is already linked to your account.'')
                  True, snd (link_account w now st u r))"
    using h link_account_duplicate[of w' r' st1 u now'] by (simp add: st1_def)
  from ex obtain row where "row \<in> set (linked_accounts st1)" "discord_id row = u" "rsn row = nm"
    by blast
  then show "length (filter (\<lambda>row. discord_id row = u \<and> rsn row = nm)
                       (linked_accounts (snd (link_account w now st u r)))) = 1"
    using one_row_per_link[OF inv1] by (simp add: st1_def)
next
  assume h: "u1 \<noteq> u2 \<and> profile_truthy (fetch_runemetrics w r)
       \<and> profile_truthy (fetch_runemetrics w' r')
       \<and> get_name (the (fetch_runemetrics w r)) r = nm
       \<and> get_name (the (fetch_runemetrics w' r')) r' = nm
       \<and> \<not> (\<exists>row \<in> set (linked_accounts st).
               (discord_id row = u1 \<or> discord_id row = u2) \<and> rsn row = nm)"
  have first: "link_account w now st u1 r
             = (Message (check_mark @ '' Successfully linked **'' @ nm
                         @ ''** to your Discord account!'') False,
                st\<lparr>linked_accounts := linked_accounts st
                     @ [\<lparr>discord_id = u1, rsn = nm, linked_at = now\<rparr>]\<rparr>)"
    using h link_account_success[of w r st u1 now] by auto
  then show "link_account w now st u1 r
             = (Message (check_mark @ '' Successfully linked **'' @ nm
                         @ ''** to your Discord account!'') False,
                st\<lparr>linked_accounts := linked_accounts st
                     @ [\<lparr>discord_id = u1, rsn = nm, linked_at = now\<rparr>]\<rparr>)" .
  show "link_account w' now' (snd (link_account w now st u1 r)) u2 r'
             = (Message (check_mark @ '' Successfully linked **'' @ nm
                         @ ''** to your Discord account!'') False,
                st\<lparr>linked_accounts := linked_accounts st
                     @ [\<lparr>discord_id = u1, rsn = nm, linked_at = now\<rparr>,
                        \<lparr>discord_id = u2, rsn = nm, linked_at = now'\<rparr>]\<rparr>)"
    unfolding first
    using h link_account_success[of w' r' "st\<lparr>linked_accounts := linked_accounts st
                     @ [\<lparr>discord_id = u1, rsn = nm, linked_at = now\<rparr>]\<rparr>" u2 now']
    by auto
qed

text \<open>Caller 1 links \<open>zezima\<close> twice and caller 2 links it once, on the empty store.\<close>

theorem link_unique_per_caller_witness:
  "unique_links init_db
   \<and> link_account example_world ''t2'' (snd (link_account example_world ''t1'' init_db 1 ''zezima''))
        1 ''zezima''
      = (Message (warning_sign @ '' **Zezima** is already linked to your account.'') True,
         \<lparr>linked_accounts = [\<lparr>discord_id = 1, rsn = ''Zezima'', linked_at = ''t1''\<rparr>],
          drop_log = []\<rparr>)
   \<and> link_account example_world ''t2'' (snd (link_account example_world ''t1'' init_db 1 ''zezima''))
        2 ''zezima''
      = (Message (check_mark @ '' Successfully linked **Zezima** to your Discord account!'') False,
         \<lparr>linked_accounts = [\<lparr>discord_id = 1, rsn = ''Zezima'', linked_at = ''t1''\<rparr>,
                              \<lparr>discord_id = 2, rsn = ''Zezima'', linked_at = ''t2''\<rparr>],
          drop_log = []\<rparr>)"
  using link_unique_per_caller[of init_db example_world "''t1''" "Link 1 ''zezima''" "[]"
      "''zezima''" example_world "''zezima''" "''Zezima''" "''t2''" 1 1 2]
  by (simp add: fetch_example link_account_def insert_link_def init_db_def unique_links_def)

text \<open>
  Claim C7, as the code has it. A successful \<open>link\<close> stores the canonical name that the
  profile provider returns for the typed name. An \<open>unlink\<close> by the same caller with any
  name equal to that stored name up to the case of ASCII letters (the matching of
  \<open>LOWER\<close>) is answered with the unlinked message and removes the row, together with any
  other row of the caller that matches; drops are untouched, and a caller without links
  before the two commands is without links after them, the store being as it was. An
  \<open>unlink\<close> that matches no row of the caller is answered with the not-linked message and
  changes nothing.
\<close>

theorem link_then_unlink_stored_name:
  "(profile_truthy (fetch_runemetrics w r) \<and> nm = get_name (the (fetch_runemetrics w r)) r
    \<and> \<not> (\<exists>row \<in> set (linked_accounts st). discord_id row = u \<and> rsn row = nm)
    \<and> sql_lower r' = sql_lower nm
    \<longrightarrow> (\<exists>st1 st2.
          link_account w now st u r
            = (Message (check_mark @ '' Successfully linked **'' @ nm
                        @ ''** to your Discord account!'') False, st1)
          \<and> unlink_account st1 u r'
            = (Message (check_mark @ '' Unlinked **'' @ r' @ ''** from your account.'') False, st2)
          \<and> linked_accounts st2
            = filter (\<lambda>row. \<not> (discord_id row = u \<and> sql_lower (rsn row) = sql_lower nm))
                (linked_accounts st)
          \<and> drop_log st2 = drop_log st
          \<and> (accounts_of st u = [] \<longrightarrow> accounts_of st2 u = [] \<and> st2 = st)))
   \<and> (\<not> (\<exists>row \<in> set (linked_accounts st). discord_id row = u \<and> sql_lower (rsn row) = sql_lower r')
      \<longrightarrow> unlink_account st u r'
            = (Message (cross_mark @ '' **'' @ r' @ ''** is not linked to your account.'') True, st))"
proof (intro conjI impI)
  assume h: "profile_truthy (fetch_runemetrics w r) \<and> nm = get_name (the (fetch_runemetrics w r)) r
    \<and> \<not> (\<exists>row \<in> set (linked_accounts st). discord_id row = u \<and> rsn row = nm)
    \<and> sql_lower r' = sql_lower nm"
  define st1 where "st1 = st\<lparr>linked_accounts := linked_accounts st
           @ [\<lparr>discord_id = u, rsn = nm, linked_at = now\<rparr>]\<rparr>"
  define st2 where "st2 = st1\<lparr>linked_accounts :=
                 filter (\<lambda>row. \<not> (discord_id row = u \<and> sql_lower (rsn row) = sql_lower r'))
                   (linked_accounts st1)\<rparr>"
  have l: "link_account w now st u r
            = (Message (check_mark @ '' Successfully linked **'' @ nm
                        @ ''** to your Discord account!'') False, st1)"
    using h link_account_success[of w r st u now] unfolding st1_def by auto
  have "\<exists>row \<in> set (linked_accounts st1). discord_id row = u \<and> sql_lower (rsn row) = sql_lower r'"
    using h by (simp add: st1_def)
  then have ul: "unlink_account st1 u r'
            = (Message (check_mark @ '' Unlinked **'' @ r' @ ''** from your account.'') False, st2)"
    by (simp add: unlink_account_eq st2_def)
  have rows: "linked_accounts st2
            = filter (\<lambda>row. \<not> (discord_id row = u \<and> sql_lower (rsn row) = sql_lower nm))
                (linked_accounts st)"
    using h by (simp add: st2_def st1_def)
  have drops: "drop_log st2 = drop_log st" by (simp add: st2_def st1_def)
  have zero: "accounts_of st2 u = [] \<and> st2 = st" if "accounts_of st u = []"
  proof -
    from that have none: "\<forall>row \<in> set (linked_accounts st). discord_id row \<noteq> u"
      by (simp add: accounts_of_empty)
    then have "filter (\<lambda>row. \<not> (discord_id row = u \<and> sql_lower (rsn row) = sql_lower nm))
                (linked_accounts st) = linked_accounts st"
      by (simp add: filter_id_conv)
    with rows have same: "linked_accounts st2 = linked_accounts st" by simp
    then have "st2 = st" using drops by (intro db.equality) simp_all
    then show ?thesis using that by simp
  qed
  from l ul rows drops zero
  show "\<exists>st1 st2.
          link_account w now st u r
            = (Message (check_mark @ '' Successfully linked **'' @ nm
                        @ ''** to your Discord account!'') False, st1)
          \<and> unlink_account st1 u r'
            = (Message (check_mark @ '' Unlinked **'' @ r' @ ''** from your account.'') False, st2)
          \<and> linked_accounts st2
            = filter (\<lambda>row. \<not> (discord_id row = u \<and> sql_lower (rsn row) = sql_lower nm))
                (linked_accounts st)
          \<and> drop_log st2 = drop_log st
          \<and> (accounts_of st u = [] \<longrightarrow> accounts_of st2 u = [] \<and> st2 = st)"
    by blast
next
  assume "\<not> (\<exists>row \<in> set (linked_accounts st). discord_id row = u \<and> sql_lower (rsn row) = sql_lower r')"
  then show "unlink_account st u r'
            = (Message (cross_mark @ '' **'' @ r' @ ''** is not linked to your account.'') True, st)"
    by (simp add: unlink_account_eq)
qed

lemma sql_lower_example: "sql_lower ''ZEZIMA'' = ''zezima''" "sql_lower ''Zezima'' = ''zezima''"
  "sql_lower ''iron_man'' = ''iron_man''" "sql_lower ''Iron Man'' = ''iron man''"
  by (simp_all add: sql_lower_def sql_lower_char_def Let_def)

text \<open>Caller 1 links \<open>zezima\<close>, stored as \<open>Zezima\<close>, and unlinks \<open>ZEZIMA\<close>: the store is
  empty again.\<close>

theorem link_then_unlink_stored_name_witness:
  "link_account example_world ''t1'' init_db 1 ''zezima''
     = (Message (check_mark @ '' Successfully linked **Zezima** to your Discord account!'') False,
        \<lparr>linked_accounts = [\<lparr>discord_id = 1, rsn = ''Zezima'', linked_at = ''t1''\<rparr>],
         drop_log = []\<rparr>)
   \<and> unlink_account (snd (link_account example_world ''t1'' init_db 1 ''zezima'')) 1 ''ZEZIMA''
     = (Message (check_mark @ '' Unlinked **ZEZIMA** from your account.'') False, init_db)
   \<and> unlink_account init_db 1 ''ZEZIMA''
     = (Message (cross_mark @ '' **ZEZIMA** is not linked to your account.'') True, init_db)"
  using link_then_unlink_stored_name[of example_world "''zezima''" "''Zezima''" init_db 1
      "''ZEZIMA''" "''t1''"]
  by (simp add: fetch_example sql_lower_example link_account_def insert_link_def init_db_def
      unlink_account_def delete_link_def)

text \<open>
  The claim as written speaks of the name that was given to \<open>link\<close>. Where the provider's
  canonical name differs from the typed name by more than letter case, the typed name does
  not match the stored row: after linking \<open>iron_man\<close>, stored as \<open>Iron Man\<close>, unlinking
  \<open>iron_man\<close> is answered with the not-linked message and the caller keeps the link.
\<close>

theorem link_then_unlink_typed_name_counterexample:
  "link_account example_world ''t1'' init_db 1 ''iron_man''
     = (Message (check_mark @ '' Successfully linked **Iron Man** to your Discord account!'') False,
        \<lparr>linked_accounts = [\<lparr>discord_id = 1, rsn = ''Iron Man'', linked_at = ''t1''\<rparr>],
         drop_log = []\<rparr>)
   \<and> unlink_account (snd (link_account example_world ''t1'' init_db 1 ''iron_man'')) 1 ''iron_man''
     = (Message (cross_mark @ '' **iron_man** is not linked to your account.'') True,
        \<lparr>linked_accounts = [\<lparr>discord_id = 1, rsn = ''Iron Man'', linked_at = ''t1''\<rparr>],
         drop_log = []\<rparr>)
   \<and> accounts_of
        (snd (unlink_account (snd (link_account example_world ''t1'' init_db 1 ''iron_man''))
                1 ''iron_man'')) 1
     = [\<lparr>discord_id = 1, rsn = ''Iron Man'', linked_at = ''t1''\<rparr>]"
  by (simp add: fetch_example sql_lower_example link_account_def insert_link_def init_db_def
      unlink_account_def delete_link_def accounts_of_def index_order_def)

section \<open>Drops\<close>

lemma log_drop_no_accounts:
  "\<forall>row \<in> set (linked_accounts st). discord_id row \<noteq> u \<Longrightarrow>
   log_drop now st u item ro = (Message ''You need to link an account first with `/link`.'' True, st)"
  by (simp add: log_drop_def Let_def accounts_of_empty)

lemma log_drop_not_linked:
  assumes "\<exists>row \<in> set (linked_accounts st). discord_id row = u" and "str_truthy ro"
    and "\<not> (\<exists>row \<in> set (linked_accounts st).
              discord_id row = u \<and> py_lower (rsn row) = py_lower (the ro))"
  shows "log_drop now st u item ro
         = (Message (''**'' @ the ro @ ''** is not linked to your account.'') True, st)"
proof -
  have "accounts_of st u \<noteq> []" using assms(1) by (simp add: accounts_of_empty)
  moreover have "\<not> (\<exists>a \<in> set (accounts_of st u). py_lower (rsn a) = py_lower (the ro))"
    using assms(3) unfolding accounts_of_set by auto
  ultimately show ?thesis using assms(2) by (simp add: log_drop_def Let_def)
qed

lemma log_drop_named:
  assumes "str_truthy ro"
    and "\<exists>row \<in> set (linked_accounts st).
           discord_id row = u \<and> py_lower (rsn row) = py_lower (the ro)"
  shows "log_drop now st u item ro
         = (EmbedReply \<lparr>title = party_popper @ '' Rare Drop!'',
                         description = Some (''**'' @ the ro @ ''** received **'' @ item @ ''**!''),
                         embed_fields = []\<rparr>,
            st\<lparr>drop_log := drop_log st
                 @ [\<lparr>drop_discord_id = u, drop_rsn = the ro, item_name = item,
                     timestamp = now\<rparr>]\<rparr>)"
proof -
  have "\<exists>a \<in> set (accounts_of st u). py_lower (rsn a) = py_lower (the ro)"
    using assms(2) unfolding accounts_of_set by auto
  moreover from this have "accounts_of st u \<noteq> []" by auto
  ultimately show ?thesis using assms(1) by (simp add: log_drop_def Let_def insert_drop_def)
qed

lemma log_drop_default:
  assumes "\<exists>row \<in> set (linked_accounts st). discord_id row = u" and "\<not> str_truthy ro"
  shows "log_drop now st u item ro
         = (EmbedReply \<lparr>title = party_popper @ '' Rare Drop!'',
                         description = Some (''**'' @ rsn (hd (accounts_of st u)) @ ''** received **''
                                             @ item @ ''**!''),
                         embed_fields = []\<rparr>,
            st\<lparr>drop_log := drop_log st
                 @ [\<lparr>drop_discord_id = u, drop_rsn = rsn (hd (accounts_of st u)),
                     item_name = item, timestamp = now\<rparr>]\<rparr>)"
proof -
  have "accounts_of st u \<noteq> []" using assms(1) by (simp add: accounts_of_empty)
  then show ?thesis using assms(2) by (simp add: log_drop_def Let_def insert_drop_def hd_map)
qed

lemma first_account_least:
  assumes "\<exists>row \<in> set (linked_accounts st). discord_id row = u"
  shows "hd (accounts_of st u) \<in> set (linked_accounts st)"
    and "discord_id (hd (accounts_of st u)) = u"
    and "\<forall>row \<in> set (linked_accounts st).
           discord_id row = u \<longrightarrow> rsn (hd (accounts_of st u)) \<le> rsn row"
proof -
  have "accounts_of st u \<noteq> []" using assms by (simp add: accounts_of_empty)
  then obtain a rest where a: "accounts_of st u = a # rest" by (cases "accounts_of st u") auto
  from accounts_of_least[OF a] a
  show "hd (accounts_of st u) \<in> set (linked_accounts st)"
    and "discord_id (hd (accounts_of st u)) = u"
    and "\<forall>row \<in> set (linked_accounts st).
           discord_id row = u \<longrightarrow> rsn (hd (accounts_of st u)) \<le> rsn row"
    by simp_all
qed

text \<open>
  Claim C10, as the code has it. A caller without linked accounts is answered with the
  instruction to link first and no row is inserted. With a linked account and an RSN
  argument (a non-empty string) that equals none of the caller's linked names up to letter
  case (\<open>str.lower\<close>), the request is answered with the not-linked message and no row is
  inserted; when it equals one, the drop is announced and appended under the name as typed.
  Without an RSN argument (none, or the empty string, which the code treats alike) a caller
  with a linked account has the drop announced and appended under the name of the first
  row that the query for the caller's accounts returns: the row of the caller whose name is
  least in the order of the index, whatever the order in which the accounts were linked.
\<close>

theorem log_drop_validation:
  "((\<forall>row \<in> set (linked_accounts st). discord_id row \<noteq> u) \<longrightarrow>
      log_drop now st u item ro
        = (Message ''You need to link an account first with `/link`.'' True, st))
   \<and> ((\<exists>row \<in> set (linked_accounts st). discord_id row = u) \<and> ro = Some given \<and> given \<noteq> []
       \<and> \<not> (\<exists>row \<in> set (linked_accounts st).
                discord_id row = u \<and> py_lower (rsn row) = py_lower given)
       \<longrightarrow> log_drop now st u item ro
             = (Message (''**'' @ given @ ''** is not linked to your account.'') True, st))
   \<and> (ro = Some given \<and> given \<noteq> []
       \<and> (\<exists>row \<in> set (linked_accounts st).
             discord_id row = u \<and> py_lower (rsn row) = py_lower given)
       \<longrightarrow> log_drop now st u item ro
             = (EmbedReply \<lparr>title = party_popper @ '' Rare Drop!'',
                  description = Some (''**'' @ given @ ''** received **'' @ item @ ''**!''),
                  embed_fields = []\<rparr>,
                st\<lparr>drop_log := drop_log st
                     @ [\<lparr>drop_discord_id = u, drop_rsn = given, item_name = item,
                         timestamp = now\<rparr>]\<rparr>))
   \<and> ((\<exists>row \<in> set (linked_accounts st). discord_id row = u) \<and> (ro = None \<or> ro = Some [])
       \<longrightarrow> (\<exists>a \<in> set (linked_accounts st).
              discord_id a = u
              \<and> (\<forall>row \<in> set (linked_accounts st). discord_id row = u \<longrightarrow> rsn a \<le> rsn row)
              \<and> log_drop now st u item ro
                  = (EmbedReply \<lparr>title = party_popper @ '' Rare Drop!'',
                       description = Some (''**'' @ rsn a @ ''** received **'' @ item @ ''**!''),
                       embed_fields = []\<rparr>,
                     st\<lparr>drop_log := drop_log st
                          @ [\<lparr>drop_discord_id = u, drop_rsn = rsn a, item_name = item,
                              timestamp = now\<rparr>]\<rparr>)))"
proof (intro conjI impI)
  assume "\<forall>row \<in> set (linked_accounts st). discord_id row \<noteq> u"
  then show "log_drop now st u item ro
        = (Message ''You need to link an account first with `/link`.'' True, st)"
    by (rule log_drop_no_accounts)
next
  assume h: "(\<exists>row \<in> set (linked_accounts st). discord_id row = u) \<and> ro = Some given
       \<and> given \<noteq> []
       \<and> \<not> (\<exists>row \<in> set (linked_accounts st).
                discord_id row = u \<and> py_lower (rsn row) = py_lower given)"
  then show "log_drop now st u item ro
             = (Message (''**'' @ given @ ''** is not linked to your account.'') True, st)"
    using log_drop_not_linked[of st u ro now item] by (simp add: str_truthy_def)
next
  assume h: "ro = Some given \<and> given \<noteq> []
       \<and> (\<exists>row \<in> set (linked_accounts st).
             discord_id row = u \<and> py_lower (rsn row) = py_lower given)"
  then show "log_drop now st u item ro
             = (EmbedReply \<lparr>title = party_popper @ '' Rare Drop!'',
                  description = Some (''**'' @ given @ ''** received **'' @ item @ ''**!''),
                  embed_fields = []\<rparr>,
                st\<lparr>drop_log := drop_log st
                     @ [\<lparr>drop_discord_id = u, drop_rsn = given, item_name = item,
                         timestamp = now\<rparr>]\<rparr>)"
    using log_drop_named[of ro st u now item] by (simp add: str_truthy_def)
next
  assume h: "(\<exists>row \<in> set (linked_accounts st). discord_id row = u)
       \<and> (ro = None \<or> ro = Some [])"
  then have linked: "\<exists>row \<in> set (linked_accounts st). discord_id row = u" by simp
  from h have falsy: "\<not> str_truthy ro" by (auto simp: str_truthy_def)
  show "\<exists>a \<in> set (linked_accounts st).
              discord_id a = u
              \<and> (\<forall>row \<in> set (linked_accounts st). discord_id row = u \<longrightarrow> rsn a \<le> rsn row)
              \<and> log_drop now st u item ro
                  = (EmbedReply \<lparr>title = party_popper @ '' Rare Drop!'',
                       description = Some (''**'' @ rsn a @ ''** received **'' @ item @ ''**!''),
                       embed_fields = []\<rparr>,
                     st\<lparr>drop_log := drop_log st
                          @ [\<lparr>drop_discord_id = u, drop_rsn = rsn a, item_name = item,
                              timestamp = now\<rparr>]\<rparr>)"
    using first_account_least[OF linked] log_drop_default[OF linked falsy, of now item]
    by blast
qed

lemma py_lower_example: "py_lower ''ZEZIMA'' = ''zezima''" "py_lower ''Zezima'' = ''zezima''"
  "py_lower ''Iron Man'' = ''iron man''" "py_lower ''Durial'' = ''durial''"
  "py_lower [CHR 0xC9, CHR ''l'', CHR ''a'', CHR ''n'']
     = [CHR 0xE9, CHR ''l'', CHR ''a'', CHR ''n'']"
  "py_lower [CHR 0xE9, CHR ''L'', CHR ''A'', CHR ''N'']
     = [CHR 0xE9, CHR ''l'', CHR ''a'', CHR ''n'']"
  by (simp_all add: py_lower_def py_lower_char_def Let_def)

lemma accent_link_accounts:
  "accounts_of accent_link 3
     = [\<lparr>discord_id = 3, rsn = [CHR 0xC9, CHR ''l'', CHR ''a'', CHR ''n''],
         linked_at = ''2024-05-03 09:00:00''\<rparr>]"
  by (simp add: accent_link_def accounts_of_def index_order_def)

lemma zezima_first_accounts:
  "accounts_of zezima_first 1
     = [\<lparr>discord_id = 1, rsn = ''Iron Man'', linked_at = ''2024-05-02 11:30:00''\<rparr>,
        \<lparr>discord_id = 1, rsn = ''Zezima'', linked_at = ''2024-05-01 10:00:00''\<rparr>]"
  "accounts_of zezima_first 2 = []"
  by (simp_all add: zezima_first_def accounts_of_def index_order_def)

text \<open>The four cases on the store \<open>zezima_first\<close>, where caller 1 linked \<open>Zezima\<close> before
  \<open>Iron Man\<close> and caller 2 linked nothing: the drop without a name goes to \<open>Iron Man\<close>.
  On the store \<open>accent_link\<close> the argument matches the linked name up to the case of an
  accented letter, which \<open>str.lower\<close> folds.\<close>

theorem log_drop_validation_witness:
  "log_drop ''t3'' zezima_first 2 ''Abyssal whip'' (Some ''Zezima'')
     = (Message ''You need to link an account first with `/link`.'' True, zezima_first)
   \<and> log_drop ''t3'' zezima_first 1 ''Abyssal whip'' (Some ''Durial'')
     = (Message ''**Durial** is not linked to your account.'' True, zezima_first)
   \<and> drop_log (snd (log_drop ''t3'' zezima_first 1 ''Abyssal whip'' (Some ''ZEZIMA'')))
     = [\<lparr>drop_discord_id = 1, drop_rsn = ''ZEZIMA'', item_name = ''Abyssal whip'',
         timestamp = ''t3''\<rparr>]
   \<and> drop_log (snd (log_drop ''t3'' zezima_first 1 ''Abyssal whip'' None))
     = [\<lparr>drop_discord_id = 1, drop_rsn = ''Iron Man'', item_name = ''Abyssal whip'',
         timestamp = ''t3''\<rparr>]
   \<and> ''Iron Man'' \<le> ''Zezima'' \<and> \<not> ''Zezima'' \<le> ''Iron Man''
   \<and> drop_log (snd (log_drop ''t3'' accent_link 3 ''Abyssal whip''
                      (Some [CHR 0xE9, CHR ''L'', CHR ''A'', CHR ''N''])))
     = [\<lparr>drop_discord_id = 3, drop_rsn = [CHR 0xE9, CHR ''L'', CHR ''A'', CHR ''N''],
         item_name = ''Abyssal whip'', timestamp = ''t3''\<rparr>]"
  using log_drop_validation[of zezima_first 2 "''t3''" "''Abyssal whip''" "Some ''Zezima''"
      "''Zezima''"]
    log_drop_validation[of zezima_first 1 "''t3''" "''Abyssal whip''" "Some ''Durial''"
      "''Durial''"]
    log_drop_validation[of zezima_first 1 "''t3''" "''Abyssal whip''" "Some ''ZEZIMA''"
      "''ZEZIMA''"]
    log_drop_validation[of zezima_first 1 "''t3''" "''Abyssal whip''" None "''x''"]
    log_drop_validation[of accent_link 3 "''t3''" "''Abyssal whip''"
      "Some [CHR 0xE9, CHR ''L'', CHR ''A'', CHR ''N'']"
      "[CHR 0xE9, CHR ''L'', CHR ''A'', CHR ''N'']"]
  by (simp add: log_drop_def insert_drop_def zezima_first_accounts accent_link_accounts
      str_truthy_def py_lower_example Let_def)
     (simp add: zezima_first_def accent_link_def)

text \<open>
  The claim as written names the caller's first linked account. Caller 1 links \<open>zezima\<close>,
  stored as \<open>Zezima\<close>, and then \<open>iron_man\<close>, stored as \<open>Iron Man\<close>; the table holds the two
  rows in that order. A drop without a name is then recorded under \<open>Iron Man\<close>, the account
  linked second.
\<close>

theorem log_drop_first_linked_counterexample:
  "linked_accounts (run [(example_world, ''t1'', Link 1 ''zezima''),
                         (example_world, ''t2'', Link 1 ''iron_man'')] init_db)
     = [\<lparr>discord_id = 1, rsn = ''Zezima'', linked_at = ''t1''\<rparr>,
        \<lparr>discord_id = 1, rsn = ''Iron Man'', linked_at = ''t2''\<rparr>]
   \<and> drop_log (run [(example_world, ''t1'', Link 1 ''zezima''),
                    (example_world, ''t2'', Link 1 ''iron_man''),
                    (example_world, ''t3'', Drop 1 ''Abyssal whip'' None)] init_db)
     = [\<lparr>drop_discord_id = 1, drop_rsn = ''Iron Man'', item_name = ''Abyssal whip'',
         timestamp = ''t3''\<rparr>]"
  by (simp add: fetch_example link_account_def insert_link_def init_db_def log_drop_def
      insert_drop_def accounts_of_def index_order_def str_truthy_def Let_def)













section \<open>The skill-table parser\<close>


























lemmas parser_eval = parse_hiscores_def response_lines_def py_strip_def py_isspace_def
  parse_line_def py_int_def int_isspace_def digit_val_def SKILLS_def Let_def

lemma parse_short_body:
  "parse_hiscores short_body
     = Some [(''Overall'', \<lparr>rank = 5, level = 2898, xp = 1500000000\<rparr>),
             (''Attack'', \<lparr>rank = 10, level = 99, xp = 13034431\<rparr>),
             (''Strength'', \<lparr>rank = 12, level = 98, xp = 12000000\<rparr>)]"
  by (simp add: short_body_def parser_eval)


lemma parse_malformed: "parse_hiscores ''1,2,3.5'' = None" "parse_hiscores [] = Some []"
  "parse_hiscores (''1,2,3'' @ [CHR 0x0A, CHR 0x1C] @ ''4,5,6'') = None"
  by (simp_all add: parser_eval)


section \<open>Accuracy of the number formatting\<close>

lemma rhe_error_real:
  assumes "0 < b"
  shows "\<bar>real_of_int (round_half_even a b) - real_of_int a / real_of_int b\<bar> \<le> 1 / 2"
proof -
  define m where "m = round_half_even a b"
  have "2 * (b * m) \<le> 2 * a + b" "2 * a \<le> 2 * (b * m) + b"
    using rhe_error[OF assms, of a] by (simp_all add: m_def)
  then have "real_of_int (2 * (b * m)) \<le> real_of_int (2 * a + b)"
    "real_of_int (2 * a) \<le> real_of_int (2 * (b * m) + b)"
    by (simp_all only: of_int_le_iff)
  then have r: "2 * (real_of_int b * real_of_int m) \<le> 2 * real_of_int a + real_of_int b"
    "2 * real_of_int a \<le> 2 * (real_of_int b * real_of_int m) + real_of_int b"
    by simp_all
  have b: "0 < real_of_int b" using assms by simp
  have "real_of_int m - real_of_int a / real_of_int b
        = (real_of_int b * real_of_int m - real_of_int a) / real_of_int b"
    using b by (simp add: field_simps)
  moreover have "\<bar>real_of_int b * real_of_int m - real_of_int a\<bar> \<le> real_of_int b / 2"
    using r by linarith
  ultimately have "\<bar>real_of_int m - real_of_int a / real_of_int b\<bar>
        \<le> (real_of_int b / 2) / real_of_int b"
    using b by (simp add: divide_right_mono)
  then show ?thesis using b by (simp add: m_def)
qed

lemma scaled_round_error:
  "\<bar>real_of_int (scaled_round dp x) - double_value x * 10 ^ dp\<bar> \<le> 1 / 2"
proof (cases "0 \<le> exponent x")
  case True
  then show ?thesis by (simp add: scaled_round_def double_value_def)
next
  case False
  have "\<bar>real_of_int (round_half_even (mantissa x * 10 ^ dp) (2 ^ nat (- exponent x)))
        - real_of_int (mantissa x * 10 ^ dp) / real_of_int (2 ^ nat (- exponent x))\<bar> \<le> 1 / 2"
    by (rule rhe_error_real) simp
  then show ?thesis using False by (simp add: scaled_round_def double_value_def)
qed

lemma int_true_divide_value:
  assumes "int_true_divide a b = Inr x"
  shows "x = Double (quotient_mantissa a b) (int (quotient_exponent a b) - 52)"
  using assms by (simp add: int_true_divide_def Let_def split: if_splits)

lemma int_true_divide_error:
  assumes "0 < b" and "b \<le> a" and "int_true_divide a b = Inr x"
  shows "\<bar>double_value x - real_of_int a / real_of_int b\<bar>
         \<le> real_of_int a / real_of_int b / 2 ^ 53"
proof -
  define e where "e = quotient_exponent a b"
  define m where "m = quotient_mantissa a b"
  have lo: "2 ^ e * b \<le> a" and hi: "a < 2 * 2 ^ e * b"
    using quotient_exponent_bounds[OF assms(1,2)] by (simp_all add: e_def)
  have x: "x = Double m (int e - 52)"
    using int_true_divide_value[OF assms(3)] by (simp add: e_def m_def)
  have rb: "0 < real_of_int b" using assms(1) by simp
  show ?thesis
  proof (cases "52 \<le> e")
    case True
    define S :: int where "S = 2 ^ (e - 52)"
    define rS :: real where "rS = real_of_int S"
    have rS: "0 < rS" by (simp add: rS_def S_def)
    have mS: "m = round_half_even a (b * S)"
      using True by (simp add: m_def quotient_mantissa_eq S_def flip: e_def)
    have "\<bar>real_of_int m - real_of_int a / real_of_int (b * S)\<bar> \<le> 1 / 2"
      unfolding mS using assms(1) by (intro rhe_error_real) (simp add: S_def)
    then have h: "\<bar>real_of_int m - real_of_int a / (real_of_int b * rS)\<bar> \<le> 1 / 2"
      by (simp add: rS_def)
    have "real_of_int m * rS - real_of_int a / real_of_int b
          = rS * (real_of_int m - real_of_int a / (real_of_int b * rS))"
      using rb rS by (simp add: field_simps)
    then have "\<bar>real_of_int m * rS - real_of_int a / real_of_int b\<bar>
          = rS * \<bar>real_of_int m - real_of_int a / (real_of_int b * rS)\<bar>"
      using rS by (simp add: abs_mult)
    also have "\<dots> \<le> rS * (1 / 2)" using h rS by (intro mult_left_mono) simp_all
    finally have err: "\<bar>real_of_int m * rS - real_of_int a / real_of_int b\<bar> \<le> rS / 2" by simp
    have "2 ^ 52 * (b * S) \<le> a" unfolding S_def by (rule scaled_bounds_high(1)[OF lo hi True])
    then have "real_of_int (2 ^ 52 * (b * S)) \<le> real_of_int a" by (simp only: of_int_le_iff)
    then have "2 ^ 52 * rS * real_of_int b \<le> real_of_int a" by (simp add: rS_def mult.commute mult.left_commute)
    then have "2 ^ 52 * rS \<le> real_of_int a / real_of_int b"
      using rb by (simp add: pos_le_divide_eq)
    then have low: "rS / 2 \<le> real_of_int a / real_of_int b / 2 ^ 53" by simp
    have "double_value x = real_of_int m * rS"
      using True by (simp add: x double_value_def S_def rS_def nat_diff_distrib)
    then show ?thesis using err low by simp
  next
    case False
    then have le: "e \<le> 52" by simp
    define S :: int where "S = 2 ^ (52 - e)"
    define rS :: real where "rS = real_of_int S"
    have rS: "0 < rS" by (simp add: rS_def S_def)
    have mS: "m = round_half_even (a * S) b"
      using False by (simp add: m_def quotient_mantissa_eq S_def flip: e_def)
    have "\<bar>real_of_int m - real_of_int (a * S) / real_of_int b\<bar> \<le> 1 / 2"
      unfolding mS using assms(1) by (intro rhe_error_real)
    then have h: "\<bar>real_of_int m - real_of_int a * rS / real_of_int b\<bar> \<le> 1 / 2"
      by (simp add: rS_def)
    have "real_of_int m / rS - real_of_int a / real_of_int b
          = (real_of_int m - real_of_int a * rS / real_of_int b) / rS"
      using rb rS by (simp add: field_simps)
    then have "\<bar>real_of_int m / rS - real_of_int a / real_of_int b\<bar>
          = \<bar>real_of_int m - real_of_int a * rS / real_of_int b\<bar> / rS"
      using rS by simp
    also have "\<dots> \<le> (1 / 2) / rS" using h rS by (intro divide_right_mono) simp_all
    finally have err: "\<bar>real_of_int m / rS - real_of_int a / real_of_int b\<bar> \<le> 1 / (2 * rS)"
      by simp
    have "2 ^ 52 * b \<le> a * S" unfolding S_def by (rule scaled_bounds_low(1)[OF lo hi le])
    then have "real_of_int (2 ^ 52 * b) \<le> real_of_int (a * S)" by (simp only: of_int_le_iff)
    then have "2 ^ 52 * real_of_int b \<le> real_of_int a * rS" by (simp add: rS_def)
    then have "2 ^ 52 / rS \<le> real_of_int a / real_of_int b"
      using rb rS by (simp add: field_simps)
    then have "2 ^ 52 / rS / 2 ^ 53 \<le> real_of_int a / real_of_int b / 2 ^ 53"
      by (intro divide_right_mono) simp_all
    then have low: "1 / (2 * rS) \<le> real_of_int a / real_of_int b / 2 ^ 53" by simp
    have "int e - 52 < 0 \<or> e = 52" using le by linarith
    then have "double_value x = real_of_int m / rS"
    proof
      assume "int e - 52 < 0"
      moreover have "nat (52 - int e) = 52 - e" by simp
      ultimately show ?thesis by (simp add: x double_value_def S_def rS_def)
    next
      assume "e = 52"
      then show ?thesis by (simp add: x double_value_def S_def rS_def)
    qed
    then show ?thesis using err low by simp
  qed
qed


lemma scaled_round_nonneg: "0 \<le> mantissa x \<Longrightarrow> 0 \<le> scaled_round dp x"
proof (cases "0 \<le> exponent x")
  case True
  assume "0 \<le> mantissa x"
  then show ?thesis using True by (simp add: scaled_round_def)
next
  case False
  assume "0 \<le> mantissa x"
  then have "0 * 2 ^ nat (- exponent x) \<le> mantissa x * 10 ^ dp" by simp
  then have "0 \<le> round_half_even (mantissa x * 10 ^ dp) (2 ^ nat (- exponent x))"
    by (intro rhe_lower_bound) simp_all
  then show ?thesis using False by (simp add: scaled_round_def)
qed

lemma int_true_divide_cases:
  "int_true_divide a b = Inl OverflowError \<or> (\<exists>x. int_true_divide a b = Inr x)"
  by (simp add: int_true_divide_def Let_def)

lemma format_fixed_accuracy:
  assumes "0 < d" and "d \<le> n" and "int_true_divide n d = Inr x"
  shows "\<exists>k. format_fixed dp x = fixed_point dp k
           \<and> \<bar>real k / 10 ^ dp - real_of_int n / real_of_int d\<bar>
               \<le> 1 / (2 * 10 ^ dp) + real_of_int n / real_of_int d / 2 ^ 53"
proof -
  define k where "k = nat (scaled_round dp x)"
  define v where "v = double_value x"
  define q where "q = real_of_int n / real_of_int d"
  have "0 \<le> mantissa x"
    using int_true_divide_value[OF assms(3)] quotient_mantissa_bounds(1)[OF assms(1,2)]
    by simp
  then have "0 \<le> scaled_round dp x" by (rule scaled_round_nonneg)
  then have k: "real k = real_of_int (scaled_round dp x)" by (simp add: k_def)
  have "\<bar>real k - v * 10 ^ dp\<bar> \<le> 1 / 2" unfolding k v_def by (rule scaled_round_error)
  then have "\<bar>real k - v * 10 ^ dp\<bar> / 10 ^ dp \<le> (1 / 2) / 10 ^ dp"
    by (intro divide_right_mono) simp_all
  moreover have "real k / 10 ^ dp - v = (real k - v * 10 ^ dp) / 10 ^ dp"
    by (simp add: field_simps)
  ultimately have a: "\<bar>real k / 10 ^ dp - v\<bar> \<le> 1 / (2 * 10 ^ dp)" by simp
  have b: "\<bar>v - q\<bar> \<le> q / 2 ^ 53"
    unfolding v_def q_def by (rule int_true_divide_error[OF assms])
  have "\<bar>real k / 10 ^ dp - q\<bar> \<le> \<bar>real k / 10 ^ dp - v\<bar> + \<bar>v - q\<bar>" by simp
  with a b have "\<bar>real k / 10 ^ dp - q\<bar> \<le> 1 / (2 * 10 ^ dp) + q / 2 ^ 53" by linarith
  moreover have "format_fixed dp x = fixed_point dp k" by (simp add: format_fixed_def k_def)
  ultimately show ?thesis unfolding q_def by blast
qed

lemma format_number_overflow_iff:
  "(format_number n = Inl OverflowError) = ((2 ^ 1024 - 2 ^ 970) * 10 ^ 9 \<le> n)"
proof -
  consider "1000000000 \<le> n" | "1000000 \<le> n" "n < 1000000000" | "1000 \<le> n" "n < 1000000"
    | "n < 1000" by linarith
  then show ?thesis
  proof cases
    case 1
    then have "(int_true_divide n 1000000000 = Inl OverflowError)
               = ((2 ^ 1024 - 2 ^ 970) * 1000000000 \<le> n)"
      by (intro int_true_divide_overflow_iff) simp_all
    then show ?thesis using 1 int_true_divide_cases[of n 1000000000]
      by (auto simp: format_number_def)
  next
    case 2
    then have "(int_true_divide n 1000000 = Inl OverflowError)
               = ((2 ^ 1024 - 2 ^ 970) * 1000000 \<le> n)"
      by (intro int_true_divide_overflow_iff) simp_all
    then have "int_true_divide n 1000000 \<noteq> Inl OverflowError" using 2 by simp
    then show ?thesis using 2 int_true_divide_cases[of n 1000000]
      by (auto simp: format_number_def)
  next
    case 3
    then have "(int_true_divide n 1000 = Inl OverflowError)
               = ((2 ^ 1024 - 2 ^ 970) * 1000 \<le> n)"
      by (intro int_true_divide_overflow_iff) simp_all
    then have "int_true_divide n 1000 \<noteq> Inl OverflowError" using 3 by simp
    then show ?thesis using 3 int_true_divide_cases[of n 1000]
      by (auto simp: format_number_def)
  next
    case 4
    then show ?thesis by (simp add: format_number_def)
  qed
qed

lemma format_number_tier:
  assumes "0 < d" and "d \<le> n" and "int_true_divide n d \<noteq> Inl OverflowError"
  shows "\<exists>k. (case int_true_divide n d of Inl e \<Rightarrow> Inl e | Inr x \<Rightarrow> Inr (format_fixed dp x @ suffix))
              = Inr (fixed_point dp k @ suffix)
           \<and> \<bar>real k / 10 ^ dp - real_of_int n / real_of_int d\<bar>
               \<le> 1 / (2 * 10 ^ dp) + real_of_int n / real_of_int d / 2 ^ 53"
proof -
  obtain x where x: "int_true_divide n d = Inr x"
    using assms(3) int_true_divide_cases[of n d] by blast
  from format_fixed_accuracy[OF assms(1,2) x, of dp] show ?thesis by (auto simp: x)
qed

lemma frac_digits_length: "length (frac_digits w n) = w"
proof (induction w n rule: frac_digits.induct)
  case (1 w n)
  then show ?case by (subst frac_digits.simps) (cases "w = 0"; simp)
qed


lemma format_number_examples:
  "format_number 999 = Inr ''999''" "format_number 1000 = Inr ''1.0K''"
  "format_number 999999 = Inr ''1000.0K''" "format_number 1000000 = Inr ''1.00M''"
  "format_number 1000000000 = Inr ''1.00B''"
  by (simp_all add: number_eval)

text \<open>
  Claim C1, as the code has it. \<open>format_number\<close> fails with \<open>OverflowError\<close> exactly for
  the integers from \<open>(2 ^ 1024 - 2 ^ 970) * 10 ^ 9\<close> on, where the quotient by \<open>10 ^ 9\<close>
  rounds to a double of \<open>2 ^ 1024\<close> or more. For every integer below that bound: from
  \<open>10 ^ 9\<close> on the result is a number with two decimal places followed by B, from \<open>10 ^ 6\<close> on
  one with two decimal places followed by M, from \<open>10 ^ 3\<close> on one with one decimal place
  followed by K, and below \<open>10 ^ 3\<close> the plain decimal notation of the integer. The number
  printed is the quotient rounded to that many places, up to the rounding of the quotient
  to a double: it differs from the exact quotient by at most half a unit of the last place
  printed plus the quotient times \<open>2 ^ - 53\<close>. The five documented values are as the claim
  gives them.
\<close>

theorem format_number_tiers:
  "(format_number n = Inl OverflowError) = ((2 ^ 1024 - 2 ^ 970) * 10 ^ 9 \<le> n)
   \<and> (n < (2 ^ 1024 - 2 ^ 970) * 10 ^ 9 \<longrightarrow>
        (10 ^ 9 \<le> n \<longrightarrow>
           (\<exists>k. format_number n = Inr (fixed_point 2 k @ ''B'')
              \<and> \<bar>real k / 10 ^ 2 - real_of_int n / 10 ^ 9\<bar>
                  \<le> 1 / (2 * 10 ^ 2) + real_of_int n / 10 ^ 9 / 2 ^ 53))
        \<and> (10 ^ 6 \<le> n \<and> n < 10 ^ 9 \<longrightarrow>
           (\<exists>k. format_number n = Inr (fixed_point 2 k @ ''M'')
              \<and> \<bar>real k / 10 ^ 2 - real_of_int n / 10 ^ 6\<bar>
                  \<le> 1 / (2 * 10 ^ 2) + real_of_int n / 10 ^ 6 / 2 ^ 53))
        \<and> (10 ^ 3 \<le> n \<and> n < 10 ^ 6 \<longrightarrow>
           (\<exists>k. format_number n = Inr (fixed_point 1 k @ ''K'')
              \<and> \<bar>real k / 10 ^ 1 - real_of_int n / 10 ^ 3\<bar>
                  \<le> 1 / (2 * 10 ^ 1) + real_of_int n / 10 ^ 3 / 2 ^ 53))
        \<and> (n < 10 ^ 3 \<longrightarrow> format_number n = Inr (str_int n)))
   \<and> (\<forall>dp k. fixed_point dp k = digits_of (k div 10 ^ dp) @ ''.'' @ frac_digits dp (k mod 10 ^ dp)
              \<and> length (frac_digits dp (k mod 10 ^ dp)) = dp)
   \<and> format_number 999 = Inr ''999'' \<and> format_number 1000 = Inr ''1.0K''
   \<and> format_number 999999 = Inr ''1000.0K'' \<and> format_number 1000000 = Inr ''1.00M''
   \<and> format_number 1000000000 = Inr ''1.00B''"
proof -
  have B: "\<exists>k. format_number n = Inr (fixed_point 2 k @ ''B'')
              \<and> \<bar>real k / 10 ^ 2 - real_of_int n / 10 ^ 9\<bar>
                  \<le> 1 / (2 * 10 ^ 2) + real_of_int n / 10 ^ 9 / 2 ^ 53"
    if "n < (2 ^ 1024 - 2 ^ 970) * 10 ^ 9" and "10 ^ 9 \<le> n"
  proof -
    have "int_true_divide n 1000000000 \<noteq> Inl OverflowError"
      using that int_true_divide_overflow_iff[of 1000000000 n] by simp
    from format_number_tier[OF _ _ this, of 2 "''B''"] that(2)
    show ?thesis by (simp add: format_number_def)
  qed
  have M: "\<exists>k. format_number n = Inr (fixed_point 2 k @ ''M'')
              \<and> \<bar>real k / 10 ^ 2 - real_of_int n / 10 ^ 6\<bar>
                  \<le> 1 / (2 * 10 ^ 2) + real_of_int n / 10 ^ 6 / 2 ^ 53"
    if "10 ^ 6 \<le> n \<and> n < 10 ^ 9"
  proof -
    have "int_true_divide n 1000000 \<noteq> Inl OverflowError"
      using that int_true_divide_overflow_iff[of 1000000 n] by simp
    from format_number_tier[OF _ _ this, of 2 "''M''"] that
    show ?thesis by (simp add: format_number_def)
  qed
  have K: "\<exists>k. format_number n = Inr (fixed_point 1 k @ ''K'')
              \<and> \<bar>real k / 10 ^ 1 - real_of_int n / 10 ^ 3\<bar>
                  \<le> 1 / (2 * 10 ^ 1) + real_of_int n / 10 ^ 3 / 2 ^ 53"
    if "10 ^ 3 \<le> n \<and> n < 10 ^ 6"
  proof -
    have "int_true_divide n 1000 \<noteq> Inl OverflowError"
      using that int_true_divide_overflow_iff[of 1000 n] by simp
    from format_number_tier[OF _ _ this, of 1 "''K''"] that
    show ?thesis by (simp add: format_number_def)
  qed
  have P: "format_number n = Inr (str_int n)" if "n < 10 ^ 3"
    using that by (simp add: format_number_def)
  have F: "\<forall>dp k. fixed_point dp k = digits_of (k div 10 ^ dp) @ ''.'' @ frac_digits dp (k mod 10 ^ dp)
              \<and> length (frac_digits dp (k mod 10 ^ dp)) = dp"
    by (simp add: fixed_point_def frac_digits_length)
  show ?thesis
    using format_number_overflow_iff[of n] B M K P F format_number_examples by blast
qed

text \<open>The tiers at 1500000000, 2675000, 1050 and -5; the float quotients 2.675 and 1.05
  lie on either side of the decimal ties and are printed as 2.67 and 1.1.\<close>

theorem format_number_tiers_witness:
  "format_number 1500000000 = Inr ''1.50B'' \<and> format_number 2675000 = Inr ''2.67M''
   \<and> format_number 1050 = Inr ''1.1K'' \<and> format_number (- 5) = Inr ''-5''
   \<and> format_number 999 = Inr ''999'' \<and> format_number 1000 = Inr ''1.0K''
   \<and> format_number 999999 = Inr ''1000.0K'' \<and> format_number 1000000 = Inr ''1.00M''
   \<and> format_number 1000000000 = Inr ''1.00B''"
  using format_number_tiers[of 1500000000] format_number_tiers[of 2675000]
    format_number_tiers[of 1050] format_number_tiers[of "- 5"]
  by (simp add: number_eval)

text \<open>
  The claim as written covers every integer. At \<open>10 ^ 320\<close> the true division of the two
  integers raises \<open>OverflowError\<close> (integer division result too large for a float), and
  \<open>format_number\<close> returns no string.
\<close>

theorem format_number_huge_counterexample: "format_number (10 ^ 320) = Inl OverflowError"
  unfolding format_number_overflow_iff by simp

section \<open>The comparison report\<close>

lemma versus_markers:
  "\<exists>m1 m2. versus a v1 b v2 = a @ '' '' @ m1 @ '' vs '' @ b @ '' '' @ m2
      \<and> (m1 = trophy) = (v2 < v1) \<and> (m1 = []) = (\<not> v2 < v1)
      \<and> (m2 = trophy) = (v1 < v2) \<and> (m2 = []) = (\<not> v1 < v2)"
  by (auto simp: versus_def trophy_def)

lemma versus_tie: "versus a v b v = a @ ''  vs '' @ b @ '' ''"
  by (simp add: versus_def)

lemma format_number_cases:
  "format_number n = Inl OverflowError \<or> (\<exists>s. format_number n = Inr s)"
  using int_true_divide_cases[of n 1000000000] int_true_divide_cases[of n 1000000]
    int_true_divide_cases[of n 1000]
  by (auto simp: format_number_def)

lemma comparison_fields_eq:
  "comparison_fields d1 d2 =
     (case format_number (get_int (totalxp d1)) of
        Inl e \<Rightarrow> Inl e
      | Inr s1 \<Rightarrow>
          (case format_number (get_int (totalxp d2)) of
             Inl e \<Rightarrow> Inl e
           | Inr s2 \<Rightarrow>
               Inr [(''Total XP'', versus s1 (get_int (totalxp d1)) s2 (get_int (totalxp d2)), True),
                    (''Total Level'',
                     versus (str_int (get_int (totalskill d1))) (get_int (totalskill d1))
                       (str_int (get_int (totalskill d2))) (get_int (totalskill d2)), True),
                    (''Combat Level'',
                     versus (str_int (get_int (combatlevel d1))) (get_int (combatlevel d1))
                       (str_int (get_int (combatlevel d2))) (get_int (combatlevel d2)), True),
                    (''Quests Complete'',
                     versus (str_int (get_int (questscomplete d1))) (get_int (questscomplete d1))
                       (str_int (get_int (questscomplete d2))) (get_int (questscomplete d2)),
                     True)]))"
  by (simp add: comparison_fields_def comparisons_def compare_field_def get_stat_def Let_def
      split: sum.splits)


lemma comparison_fields_overflow_iff:
  "(comparison_fields d1 d2 = Inl OverflowError)
   = ((2 ^ 1024 - 2 ^ 970) * 10 ^ 9 \<le> get_int (totalxp d1)
      \<or> (2 ^ 1024 - 2 ^ 970) * 10 ^ 9 \<le> get_int (totalxp d2))"
  using format_number_cases[of "get_int (totalxp d1)"] format_number_cases[of "get_int (totalxp d2)"]
    format_number_overflow_iff[of "get_int (totalxp d1)"]
    format_number_overflow_iff[of "get_int (totalxp d2)"]
  by (auto simp: comparison_fields_eq split: sum.splits)

lemma comparison_fields_in_range:
  assumes "get_int (totalxp d1) < (2 ^ 1024 - 2 ^ 970) * 10 ^ 9"
    and "get_int (totalxp d2) < (2 ^ 1024 - 2 ^ 970) * 10 ^ 9"
  shows "\<exists>s1 s2. format_number (get_int (totalxp d1)) = Inr s1
           \<and> format_number (get_int (totalxp d2)) = Inr s2
           \<and> comparison_fields d1 d2 =
               Inr [(''Total XP'', versus s1 (get_int (totalxp d1)) s2 (get_int (totalxp d2)), True),
                    (''Total Level'',
                     versus (str_int (get_int (totalskill d1))) (get_int (totalskill d1))
                       (str_int (get_int (totalskill d2))) (get_int (totalskill d2)), True),
                    (''Combat Level'',
                     versus (str_int (get_int (combatlevel d1))) (get_int (combatlevel d1))
                       (str_int (get_int (combatlevel d2))) (get_int (combatlevel d2)), True),
                    (''Quests Complete'',
                     versus (str_int (get_int (questscomplete d1))) (get_int (questscomplete d1))
                       (str_int (get_int (questscomplete d2))) (get_int (questscomplete d2)),
                     True)]"
proof -
  obtain s1 where s1: "format_number (get_int (totalxp d1)) = Inr s1"
    using assms(1) format_number_cases[of "get_int (totalxp d1)"]
      format_number_overflow_iff[of "get_int (totalxp d1)"] by auto
  obtain s2 where s2: "format_number (get_int (totalxp d2)) = Inr s2"
    using assms(2) format_number_cases[of "get_int (totalxp d2)"]
      format_number_overflow_iff[of "get_int (totalxp d2)"] by auto
  show ?thesis by (simp add: comparison_fields_eq s1 s2)
qed

lemma compare_stats_report:
  assumes "profile_truthy (fetch_runemetrics w r1)" and "profile_truthy (fetch_runemetrics w r2)"
    and "name (the (fetch_runemetrics w r1)) = Some n1"
    and "name (the (fetch_runemetrics w r2)) = Some n2"
    and "comparison_fields (the (fetch_runemetrics w r1)) (the (fetch_runemetrics w r2)) = Inr fs"
  shows "compare_stats w r1 r2
         = Inr (EmbedReply \<lparr>title = crossed_swords @ '' '' @ n1 @ '' vs '' @ n2,
                              description = None, embed_fields = fs\<rparr>)"
  using assms by (simp add: compare_stats_def Let_def)

text \<open>
  Claim C5, as the code has it. Each of the four comparison fields (total experience, total
  level, combat level, quests complete, absent values counting as 0) reads: first
  display, a space, the first marker, \<open>vs\<close>, second display, a space, the second marker. A
  marker is the trophy exactly when its side's value is strictly greater than the other's
  and empty otherwise, so equal values give two empty markers. Building the fields fails
  exactly when \<open>format_number\<close> rejects one of the two total-experience values, tied or
  not; below that bound the four fields are produced, and with both names present the
  comparison is answered with them.
\<close>

theorem compare_markers_strictly_greater:
  "(\<exists>m1 m2. versus a v1 b v2 = a @ '' '' @ m1 @ '' vs '' @ b @ '' '' @ m2
      \<and> (m1 = trophy) = (v2 < v1) \<and> (m1 = []) = (\<not> v2 < v1)
      \<and> (m2 = trophy) = (v1 < v2) \<and> (m2 = []) = (\<not> v1 < v2))
   \<and> versus a v b v = a @ ''  vs '' @ b @ '' ''
   \<and> (comparison_fields d1 d2 = Inl OverflowError)
     = ((2 ^ 1024 - 2 ^ 970) * 10 ^ 9 \<le> get_int (totalxp d1)
        \<or> (2 ^ 1024 - 2 ^ 970) * 10 ^ 9 \<le> get_int (totalxp d2))
   \<and> (get_int (totalxp d1) < (2 ^ 1024 - 2 ^ 970) * 10 ^ 9
       \<and> get_int (totalxp d2) < (2 ^ 1024 - 2 ^ 970) * 10 ^ 9
       \<longrightarrow> (\<exists>s1 s2. format_number (get_int (totalxp d1)) = Inr s1
             \<and> format_number (get_int (totalxp d2)) = Inr s2
             \<and> comparison_fields d1 d2 =
                 Inr [(''Total XP'',
                       versus s1 (get_int (totalxp d1)) s2 (get_int (totalxp d2)), True),
                      (''Total Level'',
                       versus (str_int (get_int (totalskill d1))) (get_int (totalskill d1))
                         (str_int (get_int (totalskill d2))) (get_int (totalskill d2)), True),
                      (''Combat Level'',
                       versus (str_int (get_int (combatlevel d1))) (get_int (combatlevel d1))
                         (str_int (get_int (combatlevel d2))) (get_int (combatlevel d2)), True),
                      (''Quests Complete'',
                       versus (str_int (get_int (questscomplete d1))) (get_int (questscomplete d1))
                         (str_int (get_int (questscomplete d2))) (get_int (questscomplete d2)),
                       True)]))
   \<and> (profile_truthy (fetch_runemetrics w r1) \<and> profile_truthy (fetch_runemetrics w r2)
       \<and> name (the (fetch_runemetrics w r1)) = Some n1
       \<and> name (the (fetch_runemetrics w r2)) = Some n2
       \<and> comparison_fields (the (fetch_runemetrics w r1)) (the (fetch_runemetrics w r2)) = Inr fs
       \<longrightarrow> compare_stats w r1 r2
             = Inr (EmbedReply \<lparr>title = crossed_swords @ '' '' @ n1 @ '' vs '' @ n2,
                                  description = None, embed_fields = fs\<rparr>))"
  using versus_markers[of a v1 b v2] versus_tie[of a v b] comparison_fields_overflow_iff[of d1 d2]
    comparison_fields_in_range[of d1 d2] compare_stats_report[of w r1 r2 n1 n2 fs]
  by blast

lemma fetch_maxed:
  "fetch_runemetrics example_world ''maxed'' = Some maxed_profile"
  "profile_truthy (Some maxed_profile)"
  by (simp_all add: fetch_runemetrics_def example_world_def RUNEMETRICS_URL_def
      py_replace_space_def maxed_profile_def profile_truthy_def dict_truthy_def)

text \<open>Zezima against Iron Man, Iron Man against Zezima, Iron Man against itself, and the
  documented example of 100 against 200.\<close>

theorem compare_markers_strictly_greater_witness:
  "compare_stats example_world ''zezima'' ''iron_man''
     = Inr (EmbedReply \<lparr>title = crossed_swords @ '' Zezima vs Iron Man'', description = None,
          embed_fields =
            [(''Total XP'', ''1.50B '' @ trophy @ '' vs 500 '', True),
             (''Total Level'', ''2898 '' @ trophy @ '' vs 40 '', True),
             (''Combat Level'', ''138 '' @ trophy @ '' vs 3 '', True),
             (''Quests Complete'', ''7 '' @ trophy @ '' vs 0 '', True)]\<rparr>)
   \<and> compare_stats example_world ''iron_man'' ''zezima''
     = Inr (EmbedReply \<lparr>title = crossed_swords @ '' Iron Man vs Zezima'', description = None,
          embed_fields =
            [(''Total XP'', ''500  vs 1.50B '' @ trophy, True),
             (''Total Level'', ''40  vs 2898 '' @ trophy, True),
             (''Combat Level'', ''3  vs 138 '' @ trophy, True),
             (''Quests Complete'', ''0  vs 7 '' @ trophy, True)]\<rparr>)
   \<and> compare_stats example_world ''iron_man'' ''iron_man''
     = Inr (EmbedReply \<lparr>title = crossed_swords @ '' Iron Man vs Iron Man'', description = None,
          embed_fields =
            [(''Total XP'', ''500  vs 500 '', True), (''Total Level'', ''40  vs 40 '', True),
             (''Combat Level'', ''3  vs 3 '', True), (''Quests Complete'', ''0  vs 0 '', True)]\<rparr>)
   \<and> versus ''100'' 100 ''200'' 200 = ''100  vs 200 '' @ trophy"
  using compare_markers_strictly_greater[of "''100''" 100 "''200''" 200 100 zezima_profile
      iron_profile example_world "''zezima''" "''iron_man''" "''Zezima''" "''Iron Man''"
      "[(''Total XP'', ''1.50B '' @ trophy @ '' vs 500 '', True),
        (''Total Level'', ''2898 '' @ trophy @ '' vs 40 '', True),
        (''Combat Level'', ''138 '' @ trophy @ '' vs 3 '', True),
        (''Quests Complete'', ''7 '' @ trophy @ '' vs 0 '', True)]"]
  by (simp add: fetch_example compare_stats_def comparison_fields_eq versus_def
      zezima_profile_def iron_profile_def get_int_def profile_truthy_def dict_truthy_def
      number_eval)

text \<open>
  The claim as written says that formatting a tied comparison does not fail. Comparing a
  profile whose total experience is \<open>10 ^ 320\<close> with itself is a tie in every statistic,
  and \<open>format_number\<close> raises on the first field.
\<close>

theorem compare_tie_counterexample:
  "compare_stats example_world ''maxed'' ''maxed'' = Inl OverflowError"
proof -
  have "comparison_fields maxed_profile maxed_profile = Inl OverflowError"
    unfolding comparison_fields_overflow_iff by (simp add: maxed_profile_def get_int_def)
  then show ?thesis
    by (simp add: compare_stats_def fetch_maxed Let_def) (simp add: maxed_profile_def)
qed

section \<open>The partial stats report\<close>

lemma concat_present:
  "concat (map (\<lambda>s. case g s of None \<Rightarrow> [] | Some e \<Rightarrow> F s e) xs)
   = concat (map (\<lambda>s. F s (the (g s))) (filter (\<lambda>s. g s \<noteq> None) xs))"
  by (induction xs) (auto split: option.splits)

lemma concat_sep: "cs \<noteq> [] \<Longrightarrow> concat (map (\<lambda>c. c @ sep) cs) = py_join sep cs @ sep"
  by (induction sep cs rule: py_join.induct) simp_all

lemma py_join_last: "cs \<noteq> [] \<Longrightarrow> \<exists>pre. py_join sep cs = pre @ last cs"
proof (induction sep cs rule: py_join.induct)
  case (1 sep)
  then show ?case by simp
next
  case (2 sep x)
  then show ?case by simp
next
  case (3 sep x y ys)
  then obtain pre where "py_join sep (y # ys) = pre @ last (y # ys)" by auto
  then have "py_join sep (x # y # ys) = (x @ sep @ pre) @ last (x # y # ys)" by simp
  then show ?case by blast
qed

lemma dropWhile_rev_last: "x \<noteq> [] \<Longrightarrow> \<not> P (last x) \<Longrightarrow> dropWhile P (rev x) = rev x"
  by (cases x rule: rev_cases) simp_all

lemma py_rstrip_chars_end:
  assumes "x \<noteq> []" and "last x \<notin> set chars" and "set sep \<subseteq> set chars"
  shows "py_rstrip_chars chars (x @ sep) = x"
proof -
  have "dropWhile (\<lambda>c. c \<in> set chars) (rev sep @ rev x) = dropWhile (\<lambda>c. c \<in> set chars) (rev x)"
    using assms(3) by (intro dropWhile_append2) auto
  moreover have "dropWhile (\<lambda>c. c \<in> set chars) (rev x) = rev x"
    using assms(1,2) by (rule dropWhile_rev_last)
  ultimately show ?thesis by (simp add: py_rstrip_chars_def)
qed

lemma digits_of_last: "digits_of n \<noteq> [] \<and> last (digits_of n) \<in> set ''0123456789''"
proof -
  have d: "digit_char k \<in> set ''0123456789''" if "k < 10" for k
    unfolding digit_char_def using that by (intro nth_mem) simp
  show ?thesis
  proof (cases "n < 10")
    case True
    then show ?thesis using d[of n] by (subst (1 2) digits_of.simps) simp
  next
    case False
    then show ?thesis using d[of "n mod 10"] by (subst (1 2) digits_of.simps) simp
  qed
qed

lemma str_int_last: "str_int i \<noteq> []" "last (str_int i) \<in> set ''0123456789''"
  using digits_of_last[of "nat i"] digits_of_last[of "nat (- i)"]
  by (auto simp: str_int_def)

lemma hiscores_fields_eq:
  "hiscores_fields h =
     (let present = filter (\<lambda>s. map_of h s \<noteq> None) combat_stats
      in if present = [] then []
         else [(''Combat Stats'',
                py_join '' | ''
                  (map (\<lambda>s. ''**'' @ s @ '':** '' @ str_int (level (the (map_of h s)))) present),
                False)])"
proof -
  define present where "present = filter (\<lambda>s. map_of h s \<noteq> None) combat_stats"
  define cell where "cell = (\<lambda>s. ''**'' @ s @ '':** '' @ str_int (level (the (map_of h s))))"
  have "combat_text h = concat (map (\<lambda>s. cell s @ '' | '') present)"
    unfolding combat_text_def present_def cell_def
    using concat_present[where g = "map_of h"
        and F = "\<lambda>s e. ''**'' @ s @ '':** '' @ str_int (level e) @ '' | ''" and xs = combat_stats]
    by simp
  then have ct: "combat_text h = concat (map (\<lambda>c. c @ '' | '') (map cell present))"
    by (simp add: comp_def)
  have core: "hiscores_fields h =
      (if present = [] then []
       else [(''Combat Stats'', py_join '' | '' (map cell present), False)])"
  proof (cases "present = []")
    case True
    then show ?thesis using ct by (simp add: hiscores_fields_def)
  next
    case False
    then have ne: "map cell present \<noteq> []" by simp
    have joined: "combat_text h = py_join '' | '' (map cell present) @ '' | ''"
      using ct concat_sep[OF ne, of "'' | ''"] by simp
    obtain pre where pre: "py_join '' | '' (map cell present) = pre @ last (map cell present)"
      using py_join_last[OF ne] by blast
    have lc: "last (map cell present) = cell (last present)" using False by (simp add: last_map)
    have cl: "cell (last present) \<noteq> []" "last (cell (last present)) \<in> set ''0123456789''"
      using str_int_last[of "level (the (map_of h (last present)))"] by (simp_all add: cell_def)
    have "py_join '' | '' (map cell present) \<noteq> []" using pre lc cl by simp
    moreover have "last (py_join '' | '' (map cell present)) \<notin> set '' | ''"
      using pre lc cl by auto
    ultimately have "py_rstrip_chars '' | '' (combat_text h) = py_join '' | '' (map cell present)"
      unfolding joined by (intro py_rstrip_chars_end) simp_all
    moreover have "combat_text h \<noteq> []" using joined by simp
    ultimately show ?thesis using False by (simp add: hiscores_fields_def)
  qed
  show ?thesis unfolding Let_def using core unfolding present_def cell_def .
qed

lemma profile_fields_cases:
  "(get_int (totalxp d) < (2 ^ 1024 - 2 ^ 970) * 10 ^ 9 \<longrightarrow>
      (\<exists>shown. format_number (get_int (totalxp d)) = Inr shown
         \<and> profile_fields d =
             Inr ([(''Total XP'', shown, True),
                   (''Total Level'', str_int (get_int (totalskill d)), True),
                   (''Combat Level'', str_int (get_int (combatlevel d)), True)]
                  @ quest_field d @ activity_field d)))
   \<and> ((2 ^ 1024 - 2 ^ 970) * 10 ^ 9 \<le> get_int (totalxp d) \<longrightarrow>
        profile_fields d = Inl OverflowError)"
  using format_number_cases[of "get_int (totalxp d)"]
    format_number_overflow_iff[of "get_int (totalxp d)"]
  by (auto simp: profile_fields_def)

lemma stats_report_not_found:
  "(stats_report w r = Inr (Message (cross_mark @ '' Could not find player **'' @ r @ ''**.'') True))
   = (\<not> profile_truthy (fetch_runemetrics w r) \<and> \<not> hiscores_truthy (fetch_hiscores w r))"
  by (auto simp: stats_report_def Let_def split: sum.splits)

lemma stats_report_table_only:
  assumes "\<not> profile_truthy (fetch_runemetrics w r)" and "fetch_hiscores w r = Some h"
    and "h \<noteq> []"
  shows "stats_report w r
         = Inr (EmbedReply \<lparr>title = bar_chart @ '' Stats for '' @ r, description = None,
                              embed_fields = hiscores_fields h\<rparr>)"
  using assms by (simp add: stats_report_def Let_def hiscores_truthy_def)

lemma stats_report_profile:
  assumes "fetch_runemetrics w r = Some d" and "dict_truthy d"
    and "get_int (totalxp d) < (2 ^ 1024 - 2 ^ 970) * 10 ^ 9"
  shows "\<exists>shown. format_number (get_int (totalxp d)) = Inr shown
           \<and> stats_report w r
             = Inr (EmbedReply
                      \<lparr>title = bar_chart @ '' Stats for '' @ get_name d r, description = None,
                       embed_fields =
                         [(''Total XP'', shown, True),
                          (''Total Level'', str_int (get_int (totalskill d)), True),
                          (''Combat Level'', str_int (get_int (combatlevel d)), True)]
                         @ quest_field d @ activity_field d
                         @ (if hiscores_truthy (fetch_hiscores w r)
                            then hiscores_fields (the (fetch_hiscores w r)) else [])\<rparr>)"
proof -
  obtain shown where s: "format_number (get_int (totalxp d)) = Inr shown"
    and pf: "profile_fields d =
             Inr ([(''Total XP'', shown, True),
                   (''Total Level'', str_int (get_int (totalskill d)), True),
                   (''Combat Level'', str_int (get_int (combatlevel d)), True)]
                  @ quest_field d @ activity_field d)"
    using profile_fields_cases[of d] assms(3) by blast
  have "profile_truthy (fetch_runemetrics w r)" using assms(1,2) by (simp add: profile_truthy_def)
  then show ?thesis using s pf assms(1) by (simp add: stats_report_def Let_def)
qed

lemma stats_report_fails:
  "(\<exists>e. stats_report w r = Inl e)
   = (profile_truthy (fetch_runemetrics w r)
      \<and> (2 ^ 1024 - 2 ^ 970) * 10 ^ 9 \<le> get_int (totalxp (the (fetch_runemetrics w r))))"
  using profile_fields_cases[of "the (fetch_runemetrics w r)"]
  by (cases "(2 ^ 1024 - 2 ^ 970) * 10 ^ 9 \<le> get_int (totalxp (the (fetch_runemetrics w r)))")
     (auto simp: stats_report_def Let_def)

lemma stats_report_overflow:
  assumes "fetch_runemetrics w r = Some d" and "dict_truthy d"
    and "(2 ^ 1024 - 2 ^ 970) * 10 ^ 9 \<le> get_int (totalxp d)"
  shows "stats_report w r = Inl OverflowError"
proof -
  have "profile_truthy (fetch_runemetrics w r)" using assms(1,2) by (simp add: profile_truthy_def)
  moreover have "profile_fields d = Inl OverflowError" using profile_fields_cases[of d] assms(3) by blast
  ultimately show ?thesis using assms(1) by (simp add: stats_report_def Let_def)
qed

lemma stats_lookup_named: "r \<noteq> [] \<Longrightarrow> stats_lookup w st u (Some r) = stats_report w r"
  by (simp add: stats_lookup_def str_truthy_def)

lemma stats_lookup_default:
  "arg = None \<or> arg = Some [] \<Longrightarrow>
   stats_lookup w st u arg =
     (case accounts_of st u of
        [] \<Rightarrow> Inr (Message ''Please provide an RSN or link an account with `/link`.'' True)
      | row # _ \<Rightarrow> stats_report w (rsn row))"
  by (auto simp: stats_lookup_def str_truthy_def)

text \<open>
  Claim C2, as the code has it. A fetch counts as absent when it returns nothing or an
  empty dictionary, since the code tests the truth value of the result. The not-found
  message is the reply exactly when both fetches are absent. With the skill table alone the
  report is titled with the name as typed and has at most one field, the combat field: the
  levels of those of the nine combat skills that the table holds, in the fixed order and
  joined by bars, and no field at all when it holds none of them; there is no profile,
  quest or activity field. With a profile whose total experience is below
  \<open>(2 ^ 1024 - 2 ^ 970) * 10 ^ 9\<close> the report is titled with the profile's name and has
  the three profile fields, the quest and activity fields that the profile gives rise to,
  and the combat field when the skill table is there too. The command fails exactly when
  the profile is there and its total experience has reached that bound, which
  \<open>format_number\<close> rejects. The command reports on the name given, or without one on the
  first of the caller's accounts, and asks for a name when the caller has none.
\<close>

theorem stats_partial_report:
  "(stats_report w r = Inr (Message (cross_mark @ '' Could not find player **'' @ r @ ''**.'') True))
     = (\<not> profile_truthy (fetch_runemetrics w r) \<and> \<not> hiscores_truthy (fetch_hiscores w r))
   \<and> (\<not> profile_truthy (fetch_runemetrics w r) \<and> fetch_hiscores w r = Some h \<and> h \<noteq> []
       \<longrightarrow> stats_report w r
             = Inr (EmbedReply \<lparr>title = bar_chart @ '' Stats for '' @ r, description = None,
                                  embed_fields = hiscores_fields h\<rparr>))
   \<and> hiscores_fields h =
       (let present = filter (\<lambda>s. map_of h s \<noteq> None) combat_stats
        in if present = [] then []
           else [(''Combat Stats'',
                  py_join '' | ''
                    (map (\<lambda>s. ''**'' @ s @ '':** '' @ str_int (level (the (map_of h s))))
                       present),
                  False)])
   \<and> (fetch_runemetrics w r = Some d \<and> dict_truthy d
       \<and> get_int (totalxp d) < (2 ^ 1024 - 2 ^ 970) * 10 ^ 9
       \<longrightarrow> (\<exists>shown. format_number (get_int (totalxp d)) = Inr shown
              \<and> stats_report w r
                = Inr (EmbedReply
                         \<lparr>title = bar_chart @ '' Stats for '' @ get_name d r,
                          description = None,
                          embed_fields =
                            [(''Total XP'', shown, True),
                             (''Total Level'', str_int (get_int (totalskill d)), True),
                             (''Combat Level'', str_int (get_int (combatlevel d)), True)]
                            @ quest_field d @ activity_field d
                            @ (if hiscores_truthy (fetch_hiscores w r)
                               then hiscores_fields (the (fetch_hiscores w r)) else [])\<rparr>)))
   \<and> (\<exists>e. stats_report w r = Inl e)
     = (profile_truthy (fetch_runemetrics w r)
        \<and> (2 ^ 1024 - 2 ^ 970) * 10 ^ 9 \<le> get_int (totalxp (the (fetch_runemetrics w r))))
   \<and> (fetch_runemetrics w r = Some d \<and> dict_truthy d
       \<and> (2 ^ 1024 - 2 ^ 970) * 10 ^ 9 \<le> get_int (totalxp d)
       \<longrightarrow> stats_report w r = Inl OverflowError)
   \<and> (r \<noteq> [] \<longrightarrow> stats_lookup w st u (Some r) = stats_report w r)
   \<and> (arg = None \<or> arg = Some [] \<longrightarrow>
        stats_lookup w st u arg =
          (case accounts_of st u of
             [] \<Rightarrow> Inr (Message ''Please provide an RSN or link an account with `/link`.'' True)
           | row # _ \<Rightarrow> stats_report w (rsn row)))"
  using stats_report_not_found[of w r] stats_report_table_only[of w r h] hiscores_fields_eq[of h]
    stats_report_profile[of w r d] stats_report_fails[of w r] stats_report_overflow[of w r d]
    stats_lookup_named[of r w st u] stats_lookup_default[of arg w st u]
  by blast

lemma fetch_hiscores_example:
  "fetch_hiscores example_world ''zezima''
     = Some [(''Overall'', \<lparr>rank = 5, level = 2898, xp = 1500000000\<rparr>),
             (''Attack'', \<lparr>rank = 10, level = 99, xp = 13034431\<rparr>),
             (''Strength'', \<lparr>rank = 12, level = 98, xp = 12000000\<rparr>)]"
  "fetch_hiscores example_world ''ghost''
     = Some [(''Overall'', \<lparr>rank = 5, level = 2898, xp = 1500000000\<rparr>),
             (''Attack'', \<lparr>rank = 10, level = 99, xp = 13034431\<rparr>),
             (''Strength'', \<lparr>rank = 12, level = 98, xp = 12000000\<rparr>)]"
  "fetch_hiscores example_world ''blank'' = Some []"
  "fetch_hiscores example_world ''iron_man'' = None"
  "fetch_hiscores example_world ''maxed'' = None"
  "fetch_hiscores example_world ''nobody'' = None"
  "fetch_hiscores example_world ''Iron Man'' = None"
  by (simp_all add: fetch_hiscores_def example_world_def HISCORES_URL_def py_replace_space_def
      parse_short_body parse_malformed)

lemma fetch_absent_example:
  "fetch_runemetrics example_world ''ghost'' = None"
  "fetch_runemetrics example_world ''blank'' = None"
  "fetch_runemetrics example_world ''nobody'' = None"
  "fetch_runemetrics example_world ''Iron Man'' = None"
  by (simp_all add: fetch_runemetrics_def example_world_def RUNEMETRICS_URL_def
      py_replace_space_def)

lemma fetch_maxed_profile:
  "fetch_runemetrics example_world ''maxed'' = Some maxed_profile" "dict_truthy maxed_profile"
  by (simp_all add: fetch_runemetrics_def example_world_def RUNEMETRICS_URL_def
      py_replace_space_def maxed_profile_def dict_truthy_def)

lemma short_table_fields:
  "hiscores_fields [(''Overall'', \<lparr>rank = 5, level = 2898, xp = 1500000000\<rparr>),
                    (''Attack'', \<lparr>rank = 10, level = 99, xp = 13034431\<rparr>),
                    (''Strength'', \<lparr>rank = 12, level = 98, xp = 12000000\<rparr>)]
   = [(''Combat Stats'', ''**Attack:** 99 | **Strength:** 98'', False)]"
  by (simp add: hiscores_fields_def combat_text_def combat_stats_def py_rstrip_chars_def
      number_eval)

text \<open>In the example world: \<open>ghost\<close> has a skill table only, \<open>iron_man\<close> a profile only,
  \<open>zezima\<close> both; \<open>nobody\<close> has neither and \<open>blank\<close> an empty table and no profile. A
  caller without a name argument gets the report of the first of the caller's accounts, or
  is asked for a name.\<close>

theorem stats_partial_report_witness:
  "stats_report example_world ''ghost''
     = Inr (EmbedReply \<lparr>title = bar_chart @ '' Stats for ghost'', description = None,
              embed_fields = [(''Combat Stats'', ''**Attack:** 99 | **Strength:** 98'', False)]\<rparr>)
   \<and> stats_report example_world ''iron_man''
     = Inr (EmbedReply \<lparr>title = bar_chart @ '' Stats for Iron Man'', description = None,
              embed_fields = [(''Total XP'', ''500'', True), (''Total Level'', ''40'', True),
                              (''Combat Level'', ''3'', True)]\<rparr>)
   \<and> stats_report example_world ''zezima''
     = Inr (EmbedReply \<lparr>title = bar_chart @ '' Stats for Zezima'', description = None,
              embed_fields = [(''Total XP'', ''1.50B'', True), (''Total Level'', ''2898'', True),
                              (''Combat Level'', ''138'', True), (''Quests'', ''7/12'', True),
                              (''Recent Activity'', ''Levelled up Mining.'', False),
                              (''Combat Stats'', ''**Attack:** 99 | **Strength:** 98'', False)]\<rparr>)
   \<and> stats_report example_world ''nobody''
     = Inr (Message (cross_mark @ '' Could not find player **nobody**.'') True)
   \<and> stats_report example_world ''blank''
     = Inr (Message (cross_mark @ '' Could not find player **blank**.'') True)
   \<and> stats_lookup example_world zezima_first 1 None
     = Inr (Message (cross_mark @ '' Could not find player **Iron Man**.'') True)
   \<and> stats_lookup example_world zezima_first 2 (Some [])
     = Inr (Message ''Please provide an RSN or link an account with `/link`.'' True)
   \<and> stats_lookup example_world zezima_first 2 (Some ''ghost'')
     = stats_report example_world ''ghost''"
  using stats_partial_report[where w = example_world and r = "''ghost''"
      and h = "[(''Overall'', \<lparr>rank = 5, level = 2898, xp = 1500000000\<rparr>),
                (''Attack'', \<lparr>rank = 10, level = 99, xp = 13034431\<rparr>),
                (''Strength'', \<lparr>rank = 12, level = 98, xp = 12000000\<rparr>)]"
      and d = maxed_profile and st = zezima_first and u = 2 and arg = "Some []"]
    stats_partial_report[where w = example_world and r = "''iron_man''" and h = "[]"
      and d = iron_profile and st = zezima_first and u = 1 and arg = None]
    stats_partial_report[where w = example_world and r = "''zezima''" and h = "[]"
      and d = zezima_profile and st = zezima_first and u = 1 and arg = None]
    stats_partial_report[where w = example_world and r = "''nobody''" and h = "[]"
      and d = maxed_profile and st = zezima_first and u = 1 and arg = None]
    stats_partial_report[where w = example_world and r = "''blank''" and h = "[]"
      and d = maxed_profile and st = zezima_first and u = 1 and arg = None]
  by (simp add: stats_report_def stats_lookup_def str_truthy_def fetch_example
      fetch_hiscores_example fetch_absent_example short_table_fields zezima_first_accounts
      profile_truthy_def dict_truthy_def hiscores_truthy_def profile_fields_def quest_field_def
      activity_field_def int_truthy_def get_int_def get_name_def zezima_profile_def
      iron_profile_def number_eval)

text \<open>
  The claim as written promises a report without error whenever exactly one fetch returns
  data. For the player \<open>maxed\<close> the profile fetch returns a profile whose total experience
  is \<open>10 ^ 320\<close> and the skill-table fetch returns nothing; the command raises
  \<open>OverflowError\<close> on the first field.
\<close>

theorem stats_profile_only_counterexample:
  "fetch_runemetrics example_world ''maxed'' = Some maxed_profile
   \<and> fetch_hiscores example_world ''maxed'' = None
   \<and> stats_lookup example_world init_db 1 (Some ''maxed'') = Inl OverflowError"
proof -
  have "(2 ^ 1024 - 2 ^ 970) * 10 ^ 9 \<le> get_int (totalxp maxed_profile)"
    by (simp add: maxed_profile_def get_int_def)
  then have "stats_report example_world ''maxed'' = Inl OverflowError"
    using fetch_maxed_profile by (intro stats_report_overflow) simp_all
  then show ?thesis
    by (simp add: fetch_maxed_profile fetch_hiscores_example stats_lookup_def str_truthy_def)
qed

end
